theory Spec2Isabelle
  imports Main "HOL-Library.Word"
begin

unbundle bit_operations_syntax

section \<open>Values of the Go runtime that shutil.go handles\<close>

text \<open>
  \<open>os.FileMode\<close> is a \<open>uint32\<close>. The type bits are numbered from the top:
  \<open>ModeDir = 1 << 31\<close>, \<open>ModeSymlink = 1 << 27\<close>, \<open>ModeNamedPipe = 1 << 25\<close>;
  the permission bits are the low nine (\<open>ModePerm = 0777\<close>).
\<close>

type_synonym FileMode = "32 word"

definition ModeDir :: FileMode where
  "ModeDir = 2147483648"

definition ModeSymlink :: FileMode where
  "ModeSymlink = 134217728"

definition ModeNamedPipe :: FileMode where
  "ModeNamedPipe = 33554432"

definition ModePerm :: FileMode where
  "ModePerm = 511"

text \<open>
  \<open>os.FileInfo\<close>, reduced to what shutil.go reads: \<open>Name()\<close>, \<open>Size()\<close>, \<open>Mode()\<close>, and
  the identity of the underlying file (device and inode) that \<open>os.SameFile\<close> compares.
\<close>

record FileInfo =
  fi_Name :: string
  fi_Size :: int
  fi_Mode :: FileMode
  fi_Sys :: nat

definition IsDir :: "FileInfo \<Rightarrow> bool" where
  "IsDir fi = (fi_Mode fi AND ModeDir \<noteq> 0)"

datatype errno = ENOENT | EEXIST | ENOTDIR | EISDIR | ENOTEMPTY | EINVAL | EACCES | EXDEV | ELOOP

text \<open>
  The error values: the five error types that shutil.go declares, the \<open>fmt.Errorf\<close> value
  of CopyFile's size check (source name, bytes copied, size expected), and the
  \<open>*os.PathError\<close> and \<open>*os.LinkError\<close> values that the os package returns.
\<close>

datatype error =
    SameFileError string string
  | SpecialFileError string FileInfo
  | NotADirectoryError string
  | AlreadyExistsError string
  | MoveOntoSelfError string string
  | CopiedError string int int
  | PathError string string errno
  | LinkError string string string errno

text \<open>\<open>os.IsNotExist(err)\<close>; a nil error is \<open>None\<close>, and \<open>os.IsNotExist(nil)\<close> is false.\<close>

fun IsNotExist :: "error option \<Rightarrow> bool" where
  "IsNotExist (Some (PathError _ _ e)) = (e = ENOENT)"
| "IsNotExist (Some (LinkError _ _ _ e)) = (e = ENOENT)"
| "IsNotExist _ = False"

text \<open>
  A call either returns its results or panics (a nil dereference, a call of a nil
  function value). A panic unwinds through every caller in shutil.go: none recovers.
\<close>

datatype 'a outcome = Return 'a | Panic

section \<open>The operating system and library calls shutil.go makes\<close>

text \<open>
  The file system is a state \<open>'w\<close>; \<open>'h\<close> is an open file. Calls that only read the
  file system are functions of the state; calls that change it return the new state.
  The functions of shutil.go below are written over an arbitrary such record, so that
  what is proved of them holds whatever the operating system answers.
  \<open>os.Open\<close> may block for ever, as it does on a named pipe that nobody writes to: its
  result \<open>None\<close> is the call not returning, and then the caller does not return
  either. The same holds for \<open>ioutil.ReadDir\<close> and \<open>ioutil.ReadFile\<close>, which open the
  path they are given. shutil.go does not call \<open>ioutil.ReadFile\<close>; its tests do, to
  compare contents, and so do the statements below.
\<close>

record ('w, 'h) os =
  os_Stat :: "'w \<Rightarrow> string \<Rightarrow> error + FileInfo"
  os_Lstat :: "'w \<Rightarrow> string \<Rightarrow> error + FileInfo"
  os_Readlink :: "'w \<Rightarrow> string \<Rightarrow> error + string"
  os_Open :: "'w \<Rightarrow> string \<Rightarrow> (error + 'h) option"
  ioutil_ReadDir :: "'w \<Rightarrow> string \<Rightarrow> (error + FileInfo list) option"
  ioutil_ReadFile :: "'w \<Rightarrow> string \<Rightarrow> (error + string) option"
  filepath_Abs :: "'w \<Rightarrow> string \<Rightarrow> error + string"
  filepath_Join :: "string \<Rightarrow> string \<Rightarrow> string"
  filepath_Base :: "string \<Rightarrow> string"
  path_Join :: "string \<Rightarrow> string \<Rightarrow> string"
  path_Base :: "string \<Rightarrow> string"
  os_PathSeparator :: char
  os_Create :: "string \<Rightarrow> 'w \<Rightarrow> (error + 'h) \<times> 'w"
  io_Copy :: "'h \<Rightarrow> 'h \<Rightarrow> 'w \<Rightarrow> (int \<times> error option) \<times> 'w"
  os_Symlink :: "string \<Rightarrow> string \<Rightarrow> 'w \<Rightarrow> error option \<times> 'w"
  os_Chmod :: "string \<Rightarrow> FileMode \<Rightarrow> 'w \<Rightarrow> error option \<times> 'w"
  os_MkdirAll :: "string \<Rightarrow> FileMode \<Rightarrow> 'w \<Rightarrow> error option \<times> 'w"
  os_Rename :: "string \<Rightarrow> string \<Rightarrow> 'w \<Rightarrow> error option \<times> 'w"
  os_Remove :: "string \<Rightarrow> 'w \<Rightarrow> error option \<times> 'w"
  os_RemoveAll :: "string \<Rightarrow> 'w \<Rightarrow> error option \<times> 'w"

text \<open>\<open>strings.HasPrefix\<close> and \<open>strings.HasSuffix\<close>.\<close>

definition HasPrefix :: "string \<Rightarrow> string \<Rightarrow> bool" where
  "HasPrefix s pre = (length pre \<le> length s \<and> take (length pre) s = pre)"

definition HasSuffix :: "string \<Rightarrow> string \<Rightarrow> bool" where
  "HasSuffix s suf = (length suf \<le> length s \<and> drop (length s - length suf) s = suf)"

section \<open>shutil.go\<close>

text \<open>
  \<open>os.SameFile\<close> answers false when either argument is a nil FileInfo, which is what
  \<open>os.Stat\<close> returns beside an error.
\<close>

definition os_SameFile :: "FileInfo option \<Rightarrow> FileInfo option \<Rightarrow> bool" where
  "os_SameFile a b =
     (case a of None \<Rightarrow> False
      | Some fa \<Rightarrow> (case b of None \<Rightarrow> False | Some fb \<Rightarrow> fi_Sys fa = fi_Sys fb))"

definition info_of :: "error + FileInfo \<Rightarrow> FileInfo option" where
  "info_of r = (case r of Inl _ \<Rightarrow> None | Inr fi \<Rightarrow> Some fi)"

definition samefile :: "('w, 'h) os \<Rightarrow> 'w \<Rightarrow> string \<Rightarrow> string \<Rightarrow> bool" where
  "samefile os w src dst =
     (let srcInfo = info_of (os_Stat os w src);
          dstInfo = info_of (os_Stat os w dst)
      in os_SameFile srcInfo dstInfo)"

definition specialfile :: "FileInfo \<Rightarrow> bool" where
  "specialfile fi = (fi_Mode fi AND ModeNamedPipe = ModeNamedPipe)"

fun stringInSlice :: "string \<Rightarrow> string list \<Rightarrow> bool" where
  "stringInSlice a [] = False"
| "stringInSlice a (b # list) = (if b = a then True else stringInSlice a list)"

definition IsSymlink :: "FileInfo \<Rightarrow> bool" where
  "IsSymlink fi = (fi_Mode fi AND ModeSymlink = ModeSymlink)"

text \<open>
  CopyFile. The checks run in the source's order; each early return is a branch. The
  deferred \<open>Close\<close> calls change nothing that a later call reads and are left out.
  The result \<open>None\<close> is the call not returning, \<open>os.Open(src)\<close> having blocked.
\<close>

definition CopyFile ::
  "('w, 'h) os \<Rightarrow> string \<Rightarrow> string \<Rightarrow> bool \<Rightarrow> 'w \<Rightarrow> (error option \<times> 'w) option" where
  "CopyFile os src dst followSymlinks w =
     (if samefile os w src dst then Some (Some (SameFileError src dst), w)
      else
       (case os_Lstat os w src of
          Inl err \<Rightarrow> Some (Some err, w)
        | Inr srcStat \<Rightarrow>
           (if specialfile srcStat then Some (Some (SpecialFileError src srcStat), w)
            else
             (case (case os_Stat os w dst of
                      Inl err \<Rightarrow> (if \<not> IsNotExist (Some err) then Some err else None)
                    | Inr dstStat \<Rightarrow>
                        (if specialfile dstStat then Some (SpecialFileError dst dstStat)
                         else None)) of
                Some err \<Rightarrow> Some (Some err, w)
              | None \<Rightarrow>
                 (if \<not> followSymlinks \<and> IsSymlink srcStat
                  then Some (os_Symlink os src dst w)
                  else
                   (case (if IsSymlink srcStat
                          then (case os_Readlink os w src of
                                  Inl err \<Rightarrow> Inl err
                                | Inr src' \<Rightarrow>
                                    (case os_Stat os w src' of
                                       Inl err \<Rightarrow> Inl err
                                     | Inr srcStat' \<Rightarrow> Inr (src', srcStat')))
                          else Inr (src, srcStat)) of
                      Inl err \<Rightarrow> Some (Some err, w)
                    | Inr (src2, srcStat2) \<Rightarrow>
                       (case os_Open os w src2 of
                          None \<Rightarrow> None
                        | Some (Inl err) \<Rightarrow> Some (Some err, w)
                        | Some (Inr fsrc) \<Rightarrow>
                           (case os_Create os dst w of
                              (Inl err, w1) \<Rightarrow> Some (Some err, w1)
                            | (Inr fdst, w1) \<Rightarrow>
                               (case io_Copy os fdst fsrc w1 of
                                  ((written, Some err), w2) \<Rightarrow> Some (Some err, w2)
                                | ((written, None), w2) \<Rightarrow>
                                   (if written \<noteq> fi_Size srcStat2
                                    then Some (Some (CopiedError src2 written
                                                       (fi_Size srcStat2)), w2)
                                    else Some (None, w2)))))))))))"

text \<open>
  CopyMode. The second \<open>os.Stat(src)\<close> discards its error; beside an error the FileInfo
  is nil, and \<open>srcStat.Mode()\<close> on it panics.
\<close>

definition CopyMode ::
  "('w, 'h) os \<Rightarrow> string \<Rightarrow> string \<Rightarrow> bool \<Rightarrow> 'w \<Rightarrow> error option outcome \<times> 'w" where
  "CopyMode os src dst followSymlinks w =
     (case os_Lstat os w src of
        Inl err \<Rightarrow> (Return (Some err), w)
      | Inr srcStat \<Rightarrow>
          (case os_Lstat os w dst of
             Inl err \<Rightarrow> (Return (Some err), w)
           | Inr dstStat \<Rightarrow>
               if \<not> followSymlinks \<and> IsSymlink srcStat \<and> IsSymlink dstStat
               then (Return None, w)
               else (case info_of (os_Stat os w src) of
                       None \<Rightarrow> (Panic, w)
                     | Some srcStat' \<Rightarrow>
                         (case os_Chmod os dst (fi_Mode srcStat') w of
                            (err, w1) \<Rightarrow> (Return err, w1)))))"

text \<open>Copy: CopyFile, then CopyMode, against the effective destination.\<close>

definition Copy ::
  "('w, 'h) os \<Rightarrow> string \<Rightarrow> string \<Rightarrow> bool \<Rightarrow> 'w \<Rightarrow>
   ((string \<times> error option) outcome \<times> 'w) option" where
  "Copy os src dst followSymlinks w =
     (let r = os_Stat os w dst;
          dst' = (case r of
                    Inl err \<Rightarrow> dst
                  | Inr dstInfo \<Rightarrow>
                      if IsDir dstInfo then filepath_Join os dst (filepath_Base os src)
                      else dst)
      in case (case r of
                 Inl err \<Rightarrow> if \<not> IsNotExist (Some err) then Some err else None
               | Inr _ \<Rightarrow> None) of
           Some err \<Rightarrow> Some (Return (dst', Some err), w)
         | None \<Rightarrow>
             (case CopyFile os src dst' followSymlinks w of
                None \<Rightarrow> None
              | Some (Some err, w1) \<Rightarrow> Some (Return (dst', Some err), w1)
              | Some (None, w1) \<Rightarrow>
                  (case CopyMode os src dst' followSymlinks w1 of
                     (Panic, w2) \<Rightarrow> Some (Panic, w2)
                   | (Return (Some err), w2) \<Rightarrow> Some (Return (dst', Some err), w2)
                   | (Return None, w2) \<Rightarrow> Some (Return (dst', None), w2))))"

text \<open>
  A \<open>CopyFunc\<close> is a function value; it may be nil, and calling a nil function panics.
  Like Copy, a copy function may not return: its result is then \<open>None\<close>.
\<close>

type_synonym 'w CopyFunc =
  "string \<Rightarrow> string \<Rightarrow> bool \<Rightarrow> 'w \<Rightarrow> ((string \<times> error option) outcome \<times> 'w) option"

type_synonym IgnoreFunc = "string \<Rightarrow> FileInfo list \<Rightarrow> string list"

record 'w CopyTreeOptions =
  Symlinks :: bool
  IgnoreDanglingSymlinks :: bool
  CopyFunction :: "'w CopyFunc option"
  Ignore :: "IgnoreFunc option"

definition call_CopyFunc :: "'w CopyFunc option \<Rightarrow> 'w CopyFunc" where
  "call_CopyFunc f src dst followSymlinks w =
     (case f of None \<Rightarrow> Some (Panic, w) | Some g \<Rightarrow> g src dst followSymlinks w)"

definition err_of :: "error + 'a \<Rightarrow> error option" where
  "err_of r = (case r of Inl err \<Rightarrow> Some err | Inr _ \<Rightarrow> None)"

text \<open>
  CopyTree's loop over the entries. \<open>recurse\<close> is the recursive call of CopyTree on a
  subdirectory; its result \<open>None\<close> is the recursion not returning (within the fuel).
  A \<open>continue\<close> and the end of the loop body both go on with the remaining entries.
\<close>

fun copyEntries ::
  "(string \<Rightarrow> string \<Rightarrow> 'w \<Rightarrow> (error option outcome \<times> 'w) option) \<Rightarrow> ('w, 'h) os \<Rightarrow>
   'w CopyTreeOptions \<Rightarrow> string \<Rightarrow> string \<Rightarrow> string list \<Rightarrow> FileInfo list \<Rightarrow> 'w \<Rightarrow>
   (error option outcome \<times> 'w) option" where
  "copyEntries recurse os options src dst ignoredNames [] w = Some (Return None, w)"
| "copyEntries recurse os options src dst ignoredNames (entry # entries) w =
     (if stringInSlice (fi_Name entry) ignoredNames
      then copyEntries recurse os options src dst ignoredNames entries w
      else
       (let srcPath = filepath_Join os src (fi_Name entry);
            dstPath = filepath_Join os dst (fi_Name entry)
        in (case os_Lstat os w srcPath of
              Inl err \<Rightarrow> Some (Return (Some err), w)
            | Inr entryFileInfo \<Rightarrow>
               (if IsSymlink entryFileInfo
                then
                 (case os_Readlink os w srcPath of
                    Inl err \<Rightarrow> Some (Return (Some err), w)
                  | Inr linkTo \<Rightarrow>
                     (if Symlinks options
                      then
                       (case os_Symlink os linkTo dstPath w of
                          (_, w1) \<Rightarrow>
                            copyEntries recurse os options src dst ignoredNames entries w1)
                      else
                       (if IsNotExist (err_of (os_Stat os w linkTo))
                           \<and> IgnoreDanglingSymlinks options
                        then copyEntries recurse os options src dst ignoredNames entries w
                        else
                         (case call_CopyFunc (CopyFunction options) srcPath dstPath False w of
                            None \<Rightarrow> None
                          | Some (Panic, w1) \<Rightarrow> Some (Panic, w1)
                          | Some (Return (_, Some err), w1) \<Rightarrow> Some (Return (Some err), w1)
                          | Some (Return (_, None), w1) \<Rightarrow>
                              copyEntries recurse os options src dst ignoredNames entries w1))))
                else
                 (if IsDir entryFileInfo
                  then
                   (case recurse srcPath dstPath w of
                      None \<Rightarrow> None
                    | Some (Panic, w1) \<Rightarrow> Some (Panic, w1)
                    | Some (Return (Some err), w1) \<Rightarrow> Some (Return (Some err), w1)
                    | Some (Return None, w1) \<Rightarrow>
                        copyEntries recurse os options src dst ignoredNames entries w1)
                  else
                   (case call_CopyFunc (CopyFunction options) srcPath dstPath False w of
                      None \<Rightarrow> None
                    | Some (Panic, w1) \<Rightarrow> Some (Panic, w1)
                    | Some (Return (_, Some err), w1) \<Rightarrow> Some (Return (Some err), w1)
                    | Some (Return (_, None), w1) \<Rightarrow>
                        copyEntries recurse os options src dst ignoredNames entries w1))))))"

text \<open>
  CopyTree. The first argument bounds the depth of the recursion: with none left the
  result is \<open>None\<close>, as it is when \<open>os.Open(dst)\<close> or a copy function does not
  return. A nil \<open>options\<close> is \<open>None\<close> and is replaced by the defaults.
\<close>

fun CopyTree ::
  "nat \<Rightarrow> ('w, 'h) os \<Rightarrow> string \<Rightarrow> string \<Rightarrow> 'w CopyTreeOptions option \<Rightarrow> 'w \<Rightarrow>
   (error option outcome \<times> 'w) option" where
  "CopyTree 0 os src dst options w = None"
| "CopyTree (Suc fuel) os src dst options w =
     (let opts = (case options of
                    None \<Rightarrow> \<lparr>Symlinks = False, IgnoreDanglingSymlinks = False,
                              CopyFunction = Some (Copy os), Ignore = None\<rparr>
                  | Some given \<Rightarrow> given)
      in (case os_Stat os w src of
            Inl err \<Rightarrow> Some (Return (Some err), w)
          | Inr srcFileInfo \<Rightarrow>
             (if \<not> IsDir srcFileInfo then Some (Return (Some (NotADirectoryError src)), w)
              else
               (case os_Open os w dst of
                  None \<Rightarrow> None
                | Some opened \<Rightarrow>
                   (if \<not> IsNotExist (err_of opened)
                    then Some (Return (Some (AlreadyExistsError dst)), w)
                    else
                     (case ioutil_ReadDir os w src of
                        None \<Rightarrow> None
                      | Some (Inl err) \<Rightarrow> Some (Return (Some err), w)
                      | Some (Inr entries) \<Rightarrow>
                         (case os_MkdirAll os dst (fi_Mode srcFileInfo) w of
                            (Some err, w1) \<Rightarrow> Some (Return (Some err), w1)
                          | (None, w1) \<Rightarrow>
                             (let ignoredNames = (case Ignore opts of
                                                    None \<Rightarrow> []
                                                  | Some f \<Rightarrow> f src entries)
                              in copyEntries (\<lambda>s d w'. CopyTree fuel os s d (Some opts) w')
                                   os opts src dst ignoredNames entries w1))))))))"

definition isDirectory :: "('w, 'h) os \<Rightarrow> 'w \<Rightarrow> string \<Rightarrow> bool \<times> error option" where
  "isDirectory os w path =
     (case os_Stat os w path of
        Inl err \<Rightarrow> (False, Some err)
      | Inr fileInfo \<Rightarrow> (IsDir fileInfo, None))"

record 'w MoveOptions =
  mv_CopyFunction :: "'w CopyFunc option"

text \<open>
  destinsrc returns \<open>(bool, error)\<close>; with an error the bool is false, so the pair is
  a sum here. The second test reads \<open>src\<close>, as the source does.
\<close>

definition destinsrc :: "('w, 'h) os \<Rightarrow> 'w \<Rightarrow> string \<Rightarrow> string \<Rightarrow> error + bool" where
  "destinsrc os w src dst =
     (let sep = [os_PathSeparator os]
      in (case filepath_Abs os w src of
            Inl err \<Rightarrow> Inl err
          | Inr src1 \<Rightarrow>
             (case filepath_Abs os w dst of
                Inl err \<Rightarrow> Inl err
              | Inr dst1 \<Rightarrow>
                 (let src2 = (if \<not> HasSuffix src1 sep then src1 @ sep else src1);
                      dst2 = (if \<not> HasSuffix src2 sep then dst1 @ sep else dst1)
                  in Inr (HasPrefix dst2 src2)))))"

text \<open>
  Move, from \<open>os.Rename(src, real_dst)\<close> on: the point where the path through the
  \<open>isDirDst\<close> block and the path around it meet.
\<close>

definition Move_rename ::
  "nat \<Rightarrow> ('w, 'h) os \<Rightarrow> string \<Rightarrow> string \<Rightarrow> string \<Rightarrow> 'w MoveOptions \<Rightarrow> 'w \<Rightarrow>
   ((string \<times> error option) outcome \<times> 'w) option" where
  "Move_rename fuel os src dst real_dst options w =
     (case os_Rename os src real_dst w of
        (None, w1) \<Rightarrow> Some (Return (real_dst, None), w1)
      | (Some _, w1) \<Rightarrow>
         (case os_Lstat os w1 src of
            Inl err \<Rightarrow> Some (Return ([], Some err), w1)
          | Inr srcStat \<Rightarrow>
             (if IsSymlink srcStat
              then
               (case os_Readlink os w1 src of
                  Inl err \<Rightarrow> Some (Return ([], Some err), w1)
                | Inr linkto \<Rightarrow>
                   (case os_Symlink os linkto real_dst w1 of
                      (Some err, w2) \<Rightarrow> Some (Return ([], Some err), w2)
                    | (None, w2) \<Rightarrow>
                       (case os_Remove os src w2 of
                          (Some err, w3) \<Rightarrow> Some (Return ([], Some err), w3)
                        | (None, w3) \<Rightarrow> Some (Return (real_dst, None), w3))))
              else
               (if fst (isDirectory os w1 src)
                then
                 (case destinsrc os w1 src dst of
                    Inl err \<Rightarrow> Some (Return ([], Some err), w1)
                  | Inr insrc \<Rightarrow>
                     (if insrc then Some (Return ([], Some (MoveOntoSelfError src dst)), w1)
                      else
                       (case CopyTree fuel os src real_dst
                               (Some \<lparr>Symlinks = True, IgnoreDanglingSymlinks = False,
                                      CopyFunction = Some (Copy os), Ignore = None\<rparr>) w1 of
                          None \<Rightarrow> None
                        | Some (Panic, w2) \<Rightarrow> Some (Panic, w2)
                        | Some (Return _, w2) \<Rightarrow>
                           (case os_RemoveAll os src w2 of
                              (_, w3) \<Rightarrow> Some (Return (real_dst, None), w3)))))
                else
                 (case call_CopyFunc (mv_CopyFunction options) src real_dst True w1 of
                    None \<Rightarrow> None
                  | Some (Panic, w2) \<Rightarrow> Some (Panic, w2)
                  | Some (Return (_, Some err), w2) \<Rightarrow> Some (Return ([], Some err), w2)
                  | Some (Return (_, None), w2) \<Rightarrow>
                     (case os_Remove os src w2 of
                        (Some err, w3) \<Rightarrow> Some (Return ([], Some err), w3)
                      | (None, w3) \<Rightarrow> Some (Return (real_dst, None), w3)))))))"

text \<open>
  Move. The fuel is the one handed to CopyTree; Move has no loop of its own. The empty
  string is \<open>[]\<close>.
\<close>

definition Move ::
  "nat \<Rightarrow> ('w, 'h) os \<Rightarrow> string \<Rightarrow> string \<Rightarrow> 'w MoveOptions option \<Rightarrow> 'w \<Rightarrow>
   ((string \<times> error option) outcome \<times> 'w) option" where
  "Move fuel os src dst options w =
     (let opts = (case options of
                    None \<Rightarrow> \<lparr>mv_CopyFunction = Some (Copy os)\<rparr>
                  | Some given \<Rightarrow> given);
          isDirDst = fst (isDirectory os w dst)
      in (if isDirDst
          then
           (if samefile os w src dst
            then (case os_Rename os src dst w of (err, w1) \<Rightarrow> Some (Return (dst, err), w1))
            else
             (let real_dst = path_Join os dst (path_Base os src)
              in (if err_of (os_Stat os w real_dst) = None
                  then Some (Return ([], Some (AlreadyExistsError dst)), w)
                  else Move_rename fuel os src dst real_dst opts w)))
          else Move_rename fuel os src dst dst opts w))"

section \<open>A file system to run the code on\<close>

text \<open>
  A small POSIX-like file system, used to run the functions above on concrete trees.
  A node is kept under its canonical path, the list of its components from the root
  (the root is \<open>[]\<close>), with its inode number. There are no hard links, one device and
  one user, who owns every file, with umask 0; of the permission bits the owner's write
  bit (\<open>0200\<close>) is enforced on a directory when an entry is added to it or removed
  from it and on a file when it is truncated, and the owner's read bit (\<open>0400\<close>) when
  a file or directory is opened.
\<close>

datatype node =
    File FileMode string
  | Dir FileMode
  | Link string
  | Pipe FileMode

type_synonym nodes = "(string list \<times> nat \<times> node) list"

record memfs =
  cwd :: "string list"
  nodes :: nodes

fun split_slash :: "string \<Rightarrow> string list" where
  "split_slash [] = [[]]"
| "split_slash (c # cs) =
     (if c = CHR ''/'' then [] # split_slash cs
      else (case split_slash cs of [] \<Rightarrow> [[c]] | x # xs \<Rightarrow> (c # x) # xs))"

definition elems :: "string \<Rightarrow> string list" where
  "elems p = filter (\<lambda>c. c \<noteq> [] \<and> c \<noteq> ''.'') (split_slash p)"

definition is_abs :: "string \<Rightarrow> bool" where
  "is_abs p = (case p of [] \<Rightarrow> False | c # _ \<Rightarrow> c = CHR ''/'')"

fun join_slash :: "string list \<Rightarrow> string" where
  "join_slash [] = []"
| "join_slash [x] = x"
| "join_slash (x # y # zs) = x @ ''/'' @ join_slash (y # zs)"

text \<open>
  \<open>path.Clean\<close>, \<open>path.Join\<close> of two elements and \<open>path.Base\<close>, by their documented
  results; on this system \<open>filepath\<close> is \<open>path\<close>.
\<close>

definition clean_step :: "bool \<Rightarrow> string \<Rightarrow> string list \<Rightarrow> string list" where
  "clean_step rooted c acc =
     (if c = ''..''
      then (if acc = [] then (if rooted then acc else acc @ [c])
            else (if last acc = ''..'' then acc @ [c] else butlast acc))
      else acc @ [c])"

definition Clean :: "string \<Rightarrow> string" where
  "Clean p =
     (let out = fold (clean_step (is_abs p)) (elems p) []
      in if is_abs p then ''/'' @ join_slash out
         else if out = [] then ''.'' else join_slash out)"

definition Join :: "string \<Rightarrow> string \<Rightarrow> string" where
  "Join a b =
     (if a = [] then (if b = [] then [] else Clean b)
      else if b = [] then Clean a else Clean (a @ ''/'' @ b))"

definition Base :: "string \<Rightarrow> string" where
  "Base p =
     (if p = [] then ''.''
      else (let q = rev (dropWhile (\<lambda>c. c = CHR ''/'') (rev p));
                r = rev (takeWhile (\<lambda>c. c \<noteq> CHR ''/'') (rev q))
            in if r = [] then ''/'' else r))"

text \<open>
  Path resolution, component by component. \<open>cur\<close> is the directory reached so far.
  A symbolic link met on the way is replaced by its target; the last component is
  followed only when \<open>follow\<close> is set. A chain of more than 40 links is \<open>ELOOP\<close>.
  The result is the canonical path of the file named, which need not exist when only
  its last component is missing.
\<close>

fun walk :: "nat \<Rightarrow> nodes \<Rightarrow> bool \<Rightarrow> string list \<Rightarrow> string list \<Rightarrow> errno + string list" where
  "walk fuel ns follow cur [] = Inr cur"
| "walk fuel ns follow cur (c # cs) =
     (if c = ''..'' then walk fuel ns follow (butlast cur) cs
      else
       (case map_of ns (cur @ [c]) of
          None \<Rightarrow> (if cs = [] then Inr (cur @ [c]) else Inl ENOENT)
        | Some (_, Link t) \<Rightarrow>
           (if cs = [] \<and> \<not> follow then Inr (cur @ [c])
            else (case fuel of
                    0 \<Rightarrow> Inl ELOOP
                  | Suc f \<Rightarrow> walk f ns follow (if is_abs t then [] else cur) (elems t @ cs)))
        | Some (_, Dir _) \<Rightarrow> walk fuel ns follow (cur @ [c]) cs
        | Some (_, _) \<Rightarrow> (if cs = [] then Inr (cur @ [c]) else Inl ENOTDIR)))"

definition resolve :: "memfs \<Rightarrow> bool \<Rightarrow> string \<Rightarrow> errno + string list" where
  "resolve fs follow p =
     (if p = [] then Inl ENOENT
      else walk 40 (nodes fs) follow (if is_abs p then [] else cwd fs) (elems p))"

definition node_info :: "string \<Rightarrow> nat \<times> node \<Rightarrow> FileInfo" where
  "node_info name n =
     \<lparr>fi_Name = name,
      fi_Size = (case snd n of
                   File _ data \<Rightarrow> int (length data)
                 | Link t \<Rightarrow> int (length t)
                 | _ \<Rightarrow> 0),
      fi_Mode = (case snd n of
                   File m _ \<Rightarrow> m AND ModePerm
                 | Dir m \<Rightarrow> ModeDir OR (m AND ModePerm)
                 | Link _ \<Rightarrow> ModeSymlink OR ModePerm
                 | Pipe m \<Rightarrow> ModeNamedPipe OR (m AND ModePerm)),
      fi_Sys = fst n\<rparr>"

definition mem_stat :: "bool \<Rightarrow> string \<Rightarrow> memfs \<Rightarrow> string \<Rightarrow> error + FileInfo" where
  "mem_stat follow op fs p =
     (case resolve fs follow p of
        Inl e \<Rightarrow> Inl (PathError op p e)
      | Inr c \<Rightarrow>
         (case map_of (nodes fs) c of
            None \<Rightarrow> Inl (PathError op p ENOENT)
          | Some n \<Rightarrow> Inr (node_info (Base p) n)))"

definition mem_Readlink :: "memfs \<Rightarrow> string \<Rightarrow> error + string" where
  "mem_Readlink fs p =
     (case resolve fs False p of
        Inl e \<Rightarrow> Inl (PathError ''readlink'' p e)
      | Inr c \<Rightarrow>
         (case map_of (nodes fs) c of
            None \<Rightarrow> Inl (PathError ''readlink'' p ENOENT)
          | Some (_, Link t) \<Rightarrow> Inr t
          | Some _ \<Rightarrow> Inl (PathError ''readlink'' p EINVAL)))"

text \<open>
  \<open>os.Open\<close>, for reading. An open file is the canonical path of its node. A file or
  directory without the owner's read bit (\<open>0400\<close>) is refused with \<open>EACCES\<close>. A named
  pipe has no writer here, so opening it blocks for ever: the result is \<open>None\<close>.
\<close>

definition readable :: "FileMode \<Rightarrow> bool" where
  "readable m = (m AND 256 \<noteq> 0)"

definition mem_Open :: "memfs \<Rightarrow> string \<Rightarrow> (error + string list) option" where
  "mem_Open fs p =
     (case resolve fs True p of
        Inl e \<Rightarrow> Some (Inl (PathError ''open'' p e))
      | Inr c \<Rightarrow>
         (case map_of (nodes fs) c of
            None \<Rightarrow> Some (Inl (PathError ''open'' p ENOENT))
          | Some (_, File m _) \<Rightarrow>
             (if readable m then Some (Inr c) else Some (Inl (PathError ''open'' p EACCES)))
          | Some (_, Dir m) \<Rightarrow>
             (if readable m then Some (Inr c) else Some (Inl (PathError ''open'' p EACCES)))
          | Some (_, Link _) \<Rightarrow> Some (Inl (PathError ''open'' p ELOOP))
          | Some (_, Pipe _) \<Rightarrow> None))"

fun str_le :: "string \<Rightarrow> string \<Rightarrow> bool" where
  "str_le [] _ = True"
| "str_le (a # as) [] = False"
| "str_le (a # as) (b # bs) =
     (if a = b then str_le as bs else (of_char a :: nat) < of_char b)"

fun insert_by_name :: "FileInfo \<Rightarrow> FileInfo list \<Rightarrow> FileInfo list" where
  "insert_by_name x [] = [x]"
| "insert_by_name x (y # ys) =
     (if str_le (fi_Name x) (fi_Name y) then x # y # ys else y # insert_by_name x ys)"

definition children :: "nodes \<Rightarrow> string list \<Rightarrow> (string list \<times> nat \<times> node) list" where
  "children ns c = filter (\<lambda>kv. fst kv \<noteq> [] \<and> butlast (fst kv) = c) ns"

text \<open>
  \<open>ioutil.ReadDir\<close> opens the directory and lists its entries, sorted by name;
  \<open>ioutil.ReadFile\<close> opens the file and reads all of it.
\<close>

definition mem_ReadDir :: "memfs \<Rightarrow> string \<Rightarrow> (error + FileInfo list) option" where
  "mem_ReadDir fs p =
     (case mem_Open fs p of
        None \<Rightarrow> None
      | Some (Inl err) \<Rightarrow> Some (Inl err)
      | Some (Inr c) \<Rightarrow>
         (case map_of (nodes fs) c of
            Some (_, Dir _) \<Rightarrow>
              Some (Inr (foldr insert_by_name
                           (map (\<lambda>kv. node_info (last (fst kv)) (snd kv))
                              (children (nodes fs) c)) []))
          | _ \<Rightarrow> Some (Inl (PathError ''readdirent'' p ENOTDIR))))"

definition mem_ReadFile :: "memfs \<Rightarrow> string \<Rightarrow> (error + string) option" where
  "mem_ReadFile fs p =
     (case mem_Open fs p of
        None \<Rightarrow> None
      | Some (Inl err) \<Rightarrow> Some (Inl err)
      | Some (Inr c) \<Rightarrow>
         (case map_of (nodes fs) c of
            Some (_, File _ data) \<Rightarrow> Some (Inr data)
          | Some (_, Dir _) \<Rightarrow> Some (Inl (PathError ''read'' p EISDIR))
          | _ \<Rightarrow> Some (Inl (PathError ''read'' p EINVAL))))"

definition mem_Abs :: "memfs \<Rightarrow> string \<Rightarrow> error + string" where
  "mem_Abs fs p = Inr (if is_abs p then Clean p else Join (''/'' @ join_slash (cwd fs)) p)"

subsection \<open>Calls that change the file system\<close>

fun put :: "string list \<Rightarrow> nat \<times> node \<Rightarrow> nodes \<Rightarrow> nodes" where
  "put k v [] = [(k, v)]"
| "put k v (kv # ns) = (if fst kv = k then (k, v) # ns else kv # put k v ns)"

definition fresh :: "nodes \<Rightarrow> nat" where
  "fresh ns = Suc (fold (\<lambda>kv m. max (fst (snd kv)) m) ns 0)"

definition parent_writable :: "nodes \<Rightarrow> string list \<Rightarrow> bool" where
  "parent_writable ns c =
     (case map_of ns (butlast c) of
        Some (_, Dir m) \<Rightarrow> m AND 128 \<noteq> 0
      | _ \<Rightarrow> False)"

definition is_under :: "string list \<Rightarrow> string list \<Rightarrow> bool" where
  "is_under c k = (take (length c) k = c)"

definition mem_Symlink :: "string \<Rightarrow> string \<Rightarrow> memfs \<Rightarrow> error option \<times> memfs" where
  "mem_Symlink target linkpath fs =
     (if target = [] then (Some (LinkError ''symlink'' target linkpath ENOENT), fs)
      else
       (case resolve fs False linkpath of
          Inl e \<Rightarrow> (Some (LinkError ''symlink'' target linkpath e), fs)
        | Inr c \<Rightarrow>
           (case map_of (nodes fs) c of
              Some _ \<Rightarrow> (Some (LinkError ''symlink'' target linkpath EEXIST), fs)
            | None \<Rightarrow>
               (if parent_writable (nodes fs) c
                then (None, fs\<lparr>nodes := put c (fresh (nodes fs), Link target) (nodes fs)\<rparr>)
                else (Some (LinkError ''symlink'' target linkpath EACCES), fs)))))"

definition set_perm :: "FileMode \<Rightarrow> node \<Rightarrow> node" where
  "set_perm m n =
     (case n of
        File _ data \<Rightarrow> File (m AND ModePerm) data
      | Dir _ \<Rightarrow> Dir (m AND ModePerm)
      | Link t \<Rightarrow> Link t
      | Pipe _ \<Rightarrow> Pipe (m AND ModePerm))"

definition mem_Chmod :: "string \<Rightarrow> FileMode \<Rightarrow> memfs \<Rightarrow> error option \<times> memfs" where
  "mem_Chmod p m fs =
     (case resolve fs True p of
        Inl e \<Rightarrow> (Some (PathError ''chmod'' p e), fs)
      | Inr c \<Rightarrow>
         (case map_of (nodes fs) c of
            None \<Rightarrow> (Some (PathError ''chmod'' p ENOENT), fs)
          | Some (i, n) \<Rightarrow> (None, fs\<lparr>nodes := put c (i, set_perm m n) (nodes fs)\<rparr>)))"

text \<open>\<open>os.Create\<close>: open for writing, create with mode \<open>0666\<close> if missing, truncate.\<close>

definition mem_Create :: "string \<Rightarrow> memfs \<Rightarrow> (error + string list) \<times> memfs" where
  "mem_Create p fs =
     (case resolve fs True p of
        Inl e \<Rightarrow> (Inl (PathError ''open'' p e), fs)
      | Inr c \<Rightarrow>
         (case map_of (nodes fs) c of
            None \<Rightarrow>
             (if parent_writable (nodes fs) c
              then (Inr c, fs\<lparr>nodes := put c (fresh (nodes fs), File 438 []) (nodes fs)\<rparr>)
              else (Inl (PathError ''open'' p EACCES), fs))
          | Some (i, File m data) \<Rightarrow>
             (if m AND 128 \<noteq> 0 then (Inr c, fs\<lparr>nodes := put c (i, File m []) (nodes fs)\<rparr>)
              else (Inl (PathError ''open'' p EACCES), fs))
          | Some (i, Dir m) \<Rightarrow> (Inl (PathError ''open'' p EISDIR), fs)
          | Some _ \<Rightarrow> (Inr c, fs)))"

text \<open>
  \<open>io.Copy\<close>: everything the source file holds is appended to what the destination
  holds (after \<open>os.Create\<close>, nothing); the count is the number of bytes written.
\<close>

definition mem_Copy :: "string list \<Rightarrow> string list \<Rightarrow> memfs \<Rightarrow> (int \<times> error option) \<times> memfs" where
  "mem_Copy hdst hsrc fs =
     (case map_of (nodes fs) hsrc of
        Some (_, File _ data) \<Rightarrow>
         (case map_of (nodes fs) hdst of
            Some (i, File m old) \<Rightarrow>
              ((int (length data), None),
               fs\<lparr>nodes := put hdst (i, File m (old @ data)) (nodes fs)\<rparr>)
          | _ \<Rightarrow> ((0, Some (PathError ''write'' (''/'' @ join_slash hdst) EINVAL)), fs))
      | Some (_, Dir _) \<Rightarrow> ((0, Some (PathError ''read'' (''/'' @ join_slash hsrc) EISDIR)), fs)
      | _ \<Rightarrow> ((0, Some (PathError ''read'' (''/'' @ join_slash hsrc) EINVAL)), fs))"

definition mem_Mkdir :: "string \<Rightarrow> FileMode \<Rightarrow> memfs \<Rightarrow> error option \<times> memfs" where
  "mem_Mkdir p m fs =
     (case resolve fs False p of
        Inl e \<Rightarrow> (Some (PathError ''mkdir'' p e), fs)
      | Inr c \<Rightarrow>
         (case map_of (nodes fs) c of
            Some _ \<Rightarrow> (Some (PathError ''mkdir'' p EEXIST), fs)
          | None \<Rightarrow>
             (if parent_writable (nodes fs) c
              then (None, fs\<lparr>nodes := put c (fresh (nodes fs), Dir (m AND ModePerm)) (nodes fs)\<rparr>)
              else (Some (PathError ''mkdir'' p EACCES), fs))))"

text \<open>
  \<open>os.MkdirAll\<close>: every prefix of the path that is missing is created, from the top,
  with the mode given; a prefix that exists and is no directory is an error.
\<close>

fun mkdir_prefixes :: "string \<Rightarrow> string list \<Rightarrow> FileMode \<Rightarrow> memfs \<Rightarrow> error option \<times> memfs" where
  "mkdir_prefixes pre [] m fs = (None, fs)"
| "mkdir_prefixes pre (c # cs) m fs =
     (let p = (if pre = [] then c else if pre = ''/'' then pre @ c else pre @ ''/'' @ c)
      in (case mem_stat True ''stat'' fs p of
            Inr fi \<Rightarrow>
             (if IsDir fi then mkdir_prefixes p cs m fs
              else (Some (PathError ''mkdir'' p ENOTDIR), fs))
          | Inl _ \<Rightarrow>
             (case mem_Mkdir p m fs of
                (Some e, fs') \<Rightarrow> (Some e, fs')
              | (None, fs') \<Rightarrow> mkdir_prefixes p cs m fs')))"

definition mem_MkdirAll :: "string \<Rightarrow> FileMode \<Rightarrow> memfs \<Rightarrow> error option \<times> memfs" where
  "mem_MkdirAll p m fs = mkdir_prefixes (if is_abs p then ''/'' else []) (elems p) m fs"

text \<open>
  \<open>os.Rename\<close>. Go refuses a new name that is an existing directory (unless both names
  are one file under two spellings) before it asks the system; the system refuses to
  move a directory onto a file (\<open>ENOTDIR\<close>) or into itself (\<open>EINVAL\<close>), and replaces an
  existing file.
\<close>

definition rename_nodes :: "string list \<Rightarrow> string list \<Rightarrow> nodes \<Rightarrow> nodes" where
  "rename_nodes co cn ns =
     map (\<lambda>kv. if is_under co (fst kv) then (cn @ drop (length co) (fst kv), snd kv) else kv)
       (filter (\<lambda>kv. fst kv \<noteq> cn) ns)"

definition sys_rename :: "string \<Rightarrow> string \<Rightarrow> memfs \<Rightarrow> error option \<times> memfs" where
  "sys_rename old new fs =
     (case resolve fs False old of
        Inl e \<Rightarrow> (Some (LinkError ''rename'' old new e), fs)
      | Inr co \<Rightarrow>
         (case map_of (nodes fs) co of
            None \<Rightarrow> (Some (LinkError ''rename'' old new ENOENT), fs)
          | Some (_, n) \<Rightarrow>
             (case resolve fs False new of
                Inl e \<Rightarrow> (Some (LinkError ''rename'' old new e), fs)
              | Inr cn \<Rightarrow>
                 (if co = cn then (None, fs)
                  else if (case n of Dir _ \<Rightarrow> is_under co cn | _ \<Rightarrow> False)
                  then (Some (LinkError ''rename'' old new EINVAL), fs)
                  else if (case n of Dir _ \<Rightarrow> map_of (nodes fs) cn \<noteq> None | _ \<Rightarrow> False)
                  then (Some (LinkError ''rename'' old new ENOTDIR), fs)
                  else if parent_writable (nodes fs) co \<and> parent_writable (nodes fs) cn
                  then (None, fs\<lparr>nodes := rename_nodes co cn (nodes fs)\<rparr>)
                  else (Some (LinkError ''rename'' old new EACCES), fs)))))"

definition mem_Rename :: "string \<Rightarrow> string \<Rightarrow> memfs \<Rightarrow> error option \<times> memfs" where
  "mem_Rename old new fs =
     (case mem_stat False ''lstat'' fs new of
        Inl _ \<Rightarrow> sys_rename old new fs
      | Inr fi \<Rightarrow>
         (if IsDir fi
          then (case mem_stat False ''lstat'' fs old of
                  Inl _ \<Rightarrow> (Some (LinkError ''rename'' old new ENOENT), fs)
                | Inr ofi \<Rightarrow>
                   (if new = old then (Some (LinkError ''rename'' old new EEXIST), fs)
                    else if os_SameFile (Some fi) (Some ofi) then sys_rename old new fs
                    else (Some (LinkError ''rename'' old new EEXIST), fs)))
          else sys_rename old new fs))"

definition mem_Remove :: "string \<Rightarrow> memfs \<Rightarrow> error option \<times> memfs" where
  "mem_Remove p fs =
     (case resolve fs False p of
        Inl e \<Rightarrow> (Some (PathError ''remove'' p e), fs)
      | Inr c \<Rightarrow>
         (case map_of (nodes fs) c of
            None \<Rightarrow> (Some (PathError ''remove'' p ENOENT), fs)
          | Some _ \<Rightarrow>
             (if children (nodes fs) c \<noteq> [] then (Some (PathError ''remove'' p ENOTEMPTY), fs)
              else if parent_writable (nodes fs) c
              then (None, fs\<lparr>nodes := filter (\<lambda>kv. fst kv \<noteq> c) (nodes fs)\<rparr>)
              else (Some (PathError ''remove'' p EACCES), fs))))"

text \<open>\<open>os.RemoveAll\<close>: the node and everything under it; a missing path is no error.\<close>

definition mem_RemoveAll :: "string \<Rightarrow> memfs \<Rightarrow> error option \<times> memfs" where
  "mem_RemoveAll p fs =
     (case resolve fs False p of
        Inl e \<Rightarrow> (if e = ENOENT then (None, fs) else (Some (PathError ''unlinkat'' p e), fs))
      | Inr c \<Rightarrow>
         (case map_of (nodes fs) c of
            None \<Rightarrow> (None, fs)
          | Some _ \<Rightarrow>
             (if parent_writable (nodes fs) c
              then (None, fs\<lparr>nodes := filter (\<lambda>kv. \<not> is_under c (fst kv)) (nodes fs)\<rparr>)
              else (Some (PathError ''unlinkat'' p EACCES), fs))))"

definition memos :: "(memfs, string list) os" where
  "memos =
     \<lparr>os_Stat = mem_stat True ''stat'',
      os_Lstat = mem_stat False ''lstat'',
      os_Readlink = mem_Readlink,
      os_Open = mem_Open,
      ioutil_ReadDir = mem_ReadDir,
      ioutil_ReadFile = mem_ReadFile,
      filepath_Abs = mem_Abs,
      filepath_Join = Join,
      filepath_Base = Base,
      path_Join = Join,
      path_Base = Base,
      os_PathSeparator = CHR ''/'',
      os_Create = mem_Create,
      io_Copy = mem_Copy,
      os_Symlink = mem_Symlink,
      os_Chmod = mem_Chmod,
      os_MkdirAll = mem_MkdirAll,
      os_Rename = mem_Rename,
      os_Remove = mem_Remove,
      os_RemoveAll = mem_RemoveAll\<rparr>"

subsection \<open>Trees to run on\<close>

text \<open>
  Modes are decimal: \<open>493 = 0755\<close>, \<open>420 = 0644\<close>, \<open>438 = 0666\<close>, \<open>365 = 0555\<close>.
  \<open>fs_link\<close>: a directory \<open>/s\<close> holding a symbolic link \<open>l\<close> to the file \<open>/t\<close>.
\<close>

definition fs_link :: memfs where
  "fs_link =
     \<lparr>cwd = [],
      nodes = [([], 1, Dir 493),
               ([''s''], 2, Dir 493),
               ([''s'', ''l''], 3, Link ''/t''),
               ([''t''], 4, File 420 ''hi'')]\<rparr>"

text \<open>\<open>fs_link\<close> after \<open>CopyTree("/s", "/d", nil)\<close>.\<close>

definition fs_link_copied :: memfs where
  "fs_link_copied =
     \<lparr>cwd = [],
      nodes = [([], 1, Dir 493),
               ([''s''], 2, Dir 493),
               ([''s'', ''l''], 3, Link ''/t''),
               ([''t''], 4, File 420 ''hi''),
               ([''d''], 5, Dir 493),
               ([''d'', ''l''], 6, Link ''/s/l'')]\<rparr>"

text \<open>\<open>fs_link\<close> after \<open>os.Create("/u")\<close>, and then after the bytes of \<open>/t\<close> are in it.\<close>

definition fs_link_created :: memfs where
  "fs_link_created =
     \<lparr>cwd = [],
      nodes = [([], 1, Dir 493),
               ([''s''], 2, Dir 493),
               ([''s'', ''l''], 3, Link ''/t''),
               ([''t''], 4, File 420 ''hi''),
               ([''u''], 5, File 438 [])]\<rparr>"

definition fs_link_written :: memfs where
  "fs_link_written =
     \<lparr>cwd = [],
      nodes = [([], 1, Dir 493),
               ([''s''], 2, Dir 493),
               ([''s'', ''l''], 3, Link ''/t''),
               ([''t''], 4, File 420 ''hi''),
               ([''u''], 5, File 438 ''hi'')]\<rparr>"

text \<open>\<open>fs_link\<close> after \<open>os.Symlink("/s/l", "/u")\<close>.\<close>

definition fs_link_linked :: memfs where
  "fs_link_linked =
     \<lparr>cwd = [],
      nodes = [([], 1, Dir 493),
               ([''s''], 2, Dir 493),
               ([''s'', ''l''], 3, Link ''/t''),
               ([''t''], 4, File 420 ''hi''),
               ([''u''], 5, Link ''/s/l'')]\<rparr>"

text \<open>\<open>fs_dangling\<close>: the link \<open>/s/l\<close> points to \<open>/gone\<close>, which does not exist.\<close>

definition fs_dangling :: memfs where
  "fs_dangling =
     \<lparr>cwd = [],
      nodes = [([], 1, Dir 493),
               ([''s''], 2, Dir 493),
               ([''s'', ''l''], 3, Link ''/gone''),
               ([''t''], 4, File 420 ''hi'')]\<rparr>"

definition fs_dangling_copied :: memfs where
  "fs_dangling_copied =
     \<lparr>cwd = [],
      nodes = [([], 1, Dir 493),
               ([''s''], 2, Dir 493),
               ([''s'', ''l''], 3, Link ''/gone''),
               ([''t''], 4, File 420 ''hi''),
               ([''d''], 5, Dir 493),
               ([''d'', ''l''], 6, Link ''/s/l'')]\<rparr>"

text \<open>\<open>fs_readonly\<close>: the directory \<open>/s\<close> has mode \<open>0555\<close>, as a read-only tree has.\<close>

definition fs_readonly :: memfs where
  "fs_readonly =
     \<lparr>cwd = [],
      nodes = [([], 1, Dir 493),
               ([''s''], 2, Dir 365),
               ([''s'', ''l''], 3, Link ''/t''),
               ([''t''], 4, File 420 ''hi'')]\<rparr>"

definition fs_readonly_copied :: memfs where
  "fs_readonly_copied =
     \<lparr>cwd = [],
      nodes = [([], 1, Dir 493),
               ([''s''], 2, Dir 365),
               ([''s'', ''l''], 3, Link ''/t''),
               ([''t''], 4, File 420 ''hi''),
               ([''d''], 5, Dir 365)]\<rparr>"

text \<open>
  \<open>fs_odd_dst\<close>: beside the directory \<open>/s\<close>, a symbolic link \<open>/dl\<close> whose target does
  not exist, a named pipe \<open>/p\<close>, a file \<open>/x\<close> of mode \<open>0200\<close> (decimal 128), and a
  file \<open>/t\<close> of mode \<open>0644\<close>.
\<close>

definition fs_odd_dst :: memfs where
  "fs_odd_dst =
     \<lparr>cwd = [],
      nodes = [([], 1, Dir 493),
               ([''s''], 2, Dir 493),
               ([''dl''], 3, Link ''/gone''),
               ([''p''], 4, Pipe 420),
               ([''x''], 5, File 128 ''no''),
               ([''t''], 6, File 420 ''hi'')]\<rparr>"

text \<open>
  \<open>fs_move\<close>: a directory \<open>/s\<close> with a file in it, a file \<open>/f\<close>, and a directory \<open>/d\<close>
  that holds a file named \<open>f\<close>. \<open>fs_moved\<close> is \<open>fs_move\<close> without \<open>/s\<close>.
\<close>

definition fs_move :: memfs where
  "fs_move =
     \<lparr>cwd = [],
      nodes = [([], 1, Dir 493),
               ([''s''], 2, Dir 493),
               ([''s'', ''a''], 3, File 420 ''data''),
               ([''f''], 4, File 420 ''old''),
               ([''d''], 5, Dir 493),
               ([''d'', ''f''], 6, File 420 ''kept'')]\<rparr>"

definition fs_moved :: memfs where
  "fs_moved =
     \<lparr>cwd = [],
      nodes = [([], 1, Dir 493),
               ([''f''], 4, File 420 ''old''),
               ([''d''], 5, Dir 493),
               ([''d'', ''f''], 6, File 420 ''kept'')]\<rparr>"

section \<open>Fuel\<close>

text \<open>
  The fuel bounds the depth of CopyTree's recursion and nothing else: a call that
  returns with some fuel returns the same with more.
\<close>

lemma copyEntries_more_fuel:
  assumes "\<And>s d w r. rec1 s d w = Some r \<Longrightarrow> rec2 s d w = Some r"
    and "copyEntries rec1 os opts src dst ign es w = Some r"
  shows "copyEntries rec2 os opts src dst ign es w = Some r"
  using assms(2)
proof (induction es arbitrary: w)
  case Nil
  then show ?case by simp
next
  case (Cons e es)
  show ?case
    using Cons.prems Cons.IH assms(1)
    by (auto simp add: Let_def
        split: if_splits sum.splits prod.splits option.splits outcome.splits)
qed

lemma CopyTree_Suc_fuel:
  "CopyTree n os src dst options w = Some r \<Longrightarrow>
   CopyTree (Suc n) os src dst options w = Some r"
proof (induction n arbitrary: src dst options w r)
  case 0
  then show ?case by simp
next
  case (Suc n)
  have step: "\<And>o' s d w' r'. CopyTree n os s d (Some o') w' = Some r' \<Longrightarrow>
      CopyTree (Suc n) os s d (Some o') w' = Some r'"
    using Suc.IH by blast
  show ?case
    using Suc.prems
    apply (subst CopyTree.simps(2))
    apply (subst (asm) CopyTree.simps(2))
    apply (auto simp add: Let_def simp del: CopyTree.simps
        split: if_splits sum.splits prod.splits option.splits
        elim!: copyEntries_more_fuel [rotated] dest: step)
    done
qed

lemma CopyTree_more_fuel:
  "n \<le> m \<Longrightarrow> CopyTree n os src dst options w = Some r \<Longrightarrow>
   CopyTree m os src dst options w = Some r"
  by (induction m) (auto simp: le_Suc_eq dest: CopyTree_Suc_fuel simp del: CopyTree.simps)

section \<open>The file system model\<close>

lemma map_of_put: "map_of (put k v ns) = (map_of ns)(k \<mapsto> v)"
  by (induction ns) (auto simp: fun_eq_iff)

text \<open>Creating or rewriting a regular file leaves every path that resolved where it was.\<close>

lemma walk_put_file:
  "walk fuel ns follow cur cs = Inr r \<Longrightarrow>
   map_of ns' = (map_of ns)(k \<mapsto> (i, File m d)) \<Longrightarrow>
   map_of ns k = None \<or> (\<exists>j m' d'. map_of ns k = Some (j, File m' d')) \<Longrightarrow>
   walk fuel ns' follow cur cs = Inr r"
proof (induction fuel ns follow cur cs rule: walk.induct)
  case (1 fuel ns follow cur)
  then show ?case by simp
next
  case (2 fuel ns follow cur c cs)
  show ?case
  proof (cases "c = ''..''")
    case True
    then show ?thesis using 2 by simp
  next
    case False
    show ?thesis
    proof (cases "cur @ [c] = k")
      case True
      then show ?thesis
        using 2(4,5,6) False
        by (auto split: if_splits)
    next
      case other: False
      then have same: "map_of ns' (cur @ [c]) = map_of ns (cur @ [c])"
        using 2(5) by simp
      show ?thesis
        using 2 False same
        by (auto split: option.splits node.splits if_splits nat.splits)
    qed
  qed
qed


lemma resolve_put_file:
  assumes "resolve fs True p = Inr c"
    and "map_of (nodes fs) k = None \<or> (\<exists>j m' d'. map_of (nodes fs) k = Some (j, File m' d'))"
  shows "resolve (fs\<lparr>nodes := put k (i, File m d) (nodes fs)\<rparr>) True p = Inr c"
  using assms walk_put_file [OF _ map_of_put, of 40 "nodes fs" True _ "elems p" c k i m d]
  by (auto simp: resolve_def split: if_splits)

lemma mem_Open_D:
  assumes "mem_Open fs p = Some (Inr h)"
  shows "resolve fs True p = Inr h"
  using assms
  by (auto simp: mem_Open_def split: sum.splits option.splits prod.splits node.splits if_splits)

lemma mem_ReadFile_D:
  assumes "mem_ReadFile fs p = Some (Inr data)"
  obtains c j m where "resolve fs True p = Inr c" and "map_of (nodes fs) c = Some (j, File m data)"
  using assms
  by (auto simp: mem_ReadFile_def dest!: mem_Open_D
      split: sum.splits option.splits prod.splits node.splits)

lemma mem_Create_D:
  assumes "mem_Create p fs = (Inr h, fs1)"
  shows "resolve fs True p = Inr h"
  using assms
  by (auto simp: mem_Create_def split: sum.splits option.splits prod.splits node.splits if_splits)

text \<open>
  On this file system, in every state: after \<open>os.Create\<close> and \<open>io.Copy\<close> a destination
  that can be read reads back as the bytes written, which are the first of the source's
  content; the size that a stat reports is the length of that content; and so a
  CopyFile that returns nil on its content-copy path leaves the destination with the
  content of the file copied.
\<close>

lemma memfs_stream_contract:
  assumes rd: "mem_ReadFile fs src2 = Some (Inr data)"
    and op: "mem_Open fs src2 = Some (Inr hsrc)"
    and cr: "mem_Create dst fs = (Inr hdst, fs1)"
    and cp: "mem_Copy hdst hsrc fs1 = ((n, None), fs2)"
    and reread: "mem_ReadFile fs2 dst = Some (Inr out)"
  shows "out = take (nat n) data"
proof -
  obtain j ms where src: "map_of (nodes fs) hsrc = Some (j, File ms data)"
    using rd op by (auto elim!: mem_ReadFile_D dest!: mem_Open_D)
  have rdst: "resolve fs True dst = Inr hdst"
    using cr by (rule mem_Create_D)
  have "\<exists>i m. fs1 = fs\<lparr>nodes := put hdst (i, File m []) (nodes fs)\<rparr>
      \<and> (map_of (nodes fs) hdst = None
         \<or> (\<exists>j m' d'. map_of (nodes fs) hdst = Some (j, File m' d')))"
    using cr cp rdst
    by (auto simp: mem_Create_def mem_Copy_def map_of_put
        split: option.splits prod.splits node.splits if_splits)
  then obtain i m where fs1: "fs1 = fs\<lparr>nodes := put hdst (i, File m []) (nodes fs)\<rparr>"
    and old: "map_of (nodes fs) hdst = None
              \<or> (\<exists>j m' d'. map_of (nodes fs) hdst = Some (j, File m' d'))"
    by blast
  define sent where "sent = (if hdst = hsrc then [] else data)"
  have n: "n = int (length sent)"
    and fs2: "fs2 = fs1\<lparr>nodes := put hdst (i, File m sent) (nodes fs1)\<rparr>"
    using cp src by (auto simp: mem_Copy_def fs1 map_of_put sent_def)
  have r1: "resolve fs1 True dst = Inr hdst"
    unfolding fs1 using rdst old by (rule resolve_put_file)
  have "map_of (nodes fs1) hdst = Some (i, File m [])"
    by (simp add: fs1 map_of_put)
  then have r2: "resolve fs2 True dst = Inr hdst"
    unfolding fs2 using r1 by (intro resolve_put_file) auto
  have held: "map_of (nodes fs2) hdst = Some (i, File m sent)"
    by (simp add: fs2 map_of_put)
  have "out = sent"
    using reread by (simp add: mem_ReadFile_def mem_Open_def r2 held split: if_splits)
  then show ?thesis using n by (simp add: sent_def)
qed

lemma memfs_stat_size:
  assumes "mem_stat True op fs p = Inr st" and "mem_ReadFile fs p = Some (Inr data)"
  shows "fi_Size st = int (length data)"
  using assms
  by (auto simp: mem_stat_def node_info_def elim!: mem_ReadFile_D)

lemma IsSymlink_node_info:
  "IsSymlink (node_info name (i, n)) = (case n of Link _ \<Rightarrow> True | _ \<Rightarrow> False)"
  by (cases n)
     (simp_all add: IsSymlink_def node_info_def ModePerm_def ModeSymlink_def ModeDir_def
        ModeNamedPipe_def and.assoc bit.conj_disj_distrib2)

lemma specialfile_node_info:
  "specialfile (node_info name (i, n)) = (case n of Pipe _ \<Rightarrow> True | _ \<Rightarrow> False)"
  by (cases n)
     (simp_all add: specialfile_def node_info_def ModePerm_def ModeSymlink_def ModeDir_def
        ModeNamedPipe_def and.assoc bit.conj_disj_distrib2)

lemma walk_follow_nonlink:
  "walk fuel ns False cur cs = Inr c \<Longrightarrow>
   (\<And>i t. map_of ns c \<noteq> Some (i, Link t)) \<Longrightarrow>
   walk fuel ns True cur cs = Inr c"
proof (induction fuel ns False cur cs rule: walk.induct)
  case (1 fuel ns cur)
  then show ?case by simp
next
  case (2 fuel ns cur c' cs)
  then show ?case
    by (auto split: option.splits node.splits if_splits nat.splits)
qed

lemma memfs_lstat_size:
  assumes "mem_stat False op fs p = Inr st" and "\<not> IsSymlink st"
    and "mem_ReadFile fs p = Some (Inr data)"
  shows "fi_Size st = int (length data)"
proof -
  from assms(1) obtain c i n where c: "resolve fs False p = Inr c"
    and n: "map_of (nodes fs) c = Some (i, n)" and st: "st = node_info (Base p) (i, n)"
    by (auto simp: mem_stat_def split: sum.splits option.splits)
  have nl: "\<And>j t. map_of (nodes fs) c \<noteq> Some (j, Link t)"
    using assms(2) n by (auto simp: st IsSymlink_node_info)
  have "resolve fs True p = Inr c"
    using c walk_follow_nonlink [OF _ nl] by (auto simp: resolve_def split: if_splits)
  then show ?thesis
    using assms(3) n
    by (auto simp: st node_info_def elim!: mem_ReadFile_D)
qed

lemma memfs_CopyFile_content:
  assumes ok: "CopyFile memos src dst followSymlinks fs = Some (None, fs')"
    and lst: "os_Lstat memos fs src = Inr srcStat0"
    and which: "if IsSymlink srcStat0
                then followSymlinks \<and> os_Readlink memos fs src = Inr src2
                else src2 = src"
    and rd: "ioutil_ReadFile memos fs src2 = Some (Inr data)"
    and reread: "ioutil_ReadFile memos fs' dst = Some (Inr out)"
  shows "out = data"
proof -
  have rd': "mem_ReadFile fs src2 = Some (Inr data)"
    using rd by (simp add: memos_def)
  have reread': "mem_ReadFile fs' dst = Some (Inr out)"
    using reread by (simp add: memos_def)
  from ok lst which obtain srcStat hsrc hdst fs1 n where
    st: "mem_stat True ''stat'' fs src2 = Inr srcStat
         \<or> mem_stat False ''lstat'' fs src2 = Inr srcStat \<and> \<not> IsSymlink srcStat"
    and op: "mem_Open fs src2 = Some (Inr hsrc)"
    and cr: "mem_Create dst fs = (Inr hdst, fs1)"
    and cp: "mem_Copy hdst hsrc fs1 = ((n, None), fs')"
    and sz: "n = fi_Size srcStat"
    by (auto simp: CopyFile_def memos_def
        split: if_splits sum.splits option.splits prod.splits)
  have "fi_Size srcStat = int (length data)"
    using st rd' by (auto dest: memfs_stat_size memfs_lstat_size)
  moreover have "out = take (nat n) data"
    using rd' op cr cp reread' by (rule memfs_stream_contract)
  ultimately show ?thesis
    using sz by simp
qed

text \<open>
  On this file system, in every state: a path that \<open>os.Stat\<close> finds, and that is no
  named pipe, \<open>os.Open\<close> opens or refuses with \<open>EACCES\<close>, so CopyTree onto it fails
  with the already-exists error; onto a named pipe CopyTree does not return, whatever
  the fuel. A link made by \<open>os.Symlink\<close> reads back as the target string given, so the
  link that \<open>CopyFile(src, dst, false)\<close> makes for a link \<open>src\<close> reads back as \<open>src\<close>.
\<close>

lemma memfs_Stat_Open:
  assumes "os_Stat memos fs p = Inr fi" and "\<not> specialfile fi"
  shows "\<exists>opened. os_Open memos fs p = Some opened \<and> \<not> IsNotExist (err_of opened)"
proof -
  from assms(1) obtain c i n where c: "resolve fs True p = Inr c"
    and n: "map_of (nodes fs) c = Some (i, n)" and fi: "fi = node_info (Base p) (i, n)"
    by (auto simp: memos_def mem_stat_def split: sum.splits option.splits)
  have "\<And>m. n \<noteq> Pipe m"
    using assms(2) by (auto simp: fi specialfile_node_info)
  then show ?thesis
    by (cases n) (auto simp: memos_def mem_Open_def c n err_of_def)
qed

lemma memfs_Stat_Open_pipe:
  assumes "os_Stat memos fs p = Inr fi" and "specialfile fi"
  shows "os_Open memos fs p = None"
proof -
  from assms(1) obtain c i n where c: "resolve fs True p = Inr c"
    and n: "map_of (nodes fs) c = Some (i, n)" and fi: "fi = node_info (Base p) (i, n)"
    by (auto simp: memos_def mem_stat_def split: sum.splits option.splits)
  obtain m where "n = Pipe m"
    using assms(2) by (cases n) (auto simp: fi specialfile_node_info)
  then show ?thesis
    by (simp add: memos_def mem_Open_def c n)
qed

lemma memfs_CopyTree_existing_dst:
  assumes "os_Stat memos fs src = Inr srcFileInfo" and "IsDir srcFileInfo"
    and "os_Stat memos fs dst = Inr dstFileInfo" and "\<not> specialfile dstFileInfo"
  shows "CopyTree (Suc fuel) memos src dst options fs
         = Some (Return (Some (AlreadyExistsError dst)), fs)"
proof -
  obtain opened where "os_Open memos fs dst = Some opened"
    and "\<not> IsNotExist (err_of opened)"
    using assms(3,4) memfs_Stat_Open by blast
  then show ?thesis
    using assms(1,2) by simp
qed

lemma memfs_CopyTree_pipe_dst:
  assumes "os_Stat memos fs src = Inr srcFileInfo" and "IsDir srcFileInfo"
    and "os_Stat memos fs dst = Inr dstFileInfo" and "specialfile dstFileInfo"
  shows "CopyTree fuel memos src dst options fs = None"
proof (cases fuel)
  case 0
  then show ?thesis by simp
next
  case (Suc n)
  have "os_Open memos fs dst = None"
    using assms(3,4) by (rule memfs_Stat_Open_pipe)
  then show ?thesis
    using assms(1,2) Suc by simp
qed

lemma walk_put_link:
  "walk fuel ns False cur cs = Inr k \<Longrightarrow>
   map_of ns' = (map_of ns)(k \<mapsto> (i, Link t)) \<Longrightarrow>
   map_of ns k = None \<Longrightarrow>
   walk fuel ns' False cur cs = Inr k"
proof (induction fuel ns False cur cs rule: walk.induct)
  case (1 fuel ns cur)
  then show ?case by simp
next
  case (2 fuel ns cur c cs)
  show ?case
  proof (cases "c = ''..''")
    case True
    then show ?thesis using 2 by simp
  next
    case False
    show ?thesis
    proof (cases "cur @ [c] = k")
      case True
      then show ?thesis
        using 2(4,5,6) False
        by (auto split: if_splits)
    next
      case other: False
      then have same: "map_of ns' (cur @ [c]) = map_of ns (cur @ [c])"
        using 2(5) by simp
      show ?thesis
        using 2 False same
        by (auto split: option.splits node.splits if_splits nat.splits)
    qed
  qed
qed

lemma memfs_Symlink_Readlink:
  assumes "os_Symlink memos target linkpath fs = (None, fs')"
  shows "os_Readlink memos fs' linkpath = Inr target"
proof -
  from assms obtain c where c: "resolve fs False linkpath = Inr c"
    and none: "map_of (nodes fs) c = None"
    and fs': "fs' = fs\<lparr>nodes := put c (fresh (nodes fs), Link target) (nodes fs)\<rparr>"
    by (auto simp: memos_def mem_Symlink_def split: if_splits sum.splits option.splits)
  have "resolve fs' False linkpath = Inr c"
    using c walk_put_link [OF _ map_of_put none, where fuel = 40]
    by (auto simp: resolve_def fs' split: if_splits)
  then show ?thesis
    by (simp add: memos_def mem_Readlink_def fs' map_of_put)
qed

lemma memfs_CopyFile_link:
  assumes "CopyFile memos src dst False fs = Some (None, fs')"
    and "os_Lstat memos fs src = Inr srcStat" and "IsSymlink srcStat"
  shows "os_Readlink memos fs' dst = Inr src"
proof -
  have "os_Symlink memos src dst fs = (None, fs')"
    using assms
    by (auto simp: CopyFile_def split: if_splits sum.splits option.splits)
  then show ?thesis
    by (rule memfs_Symlink_Readlink)
qed

section \<open>CopyTree and symbolic links\<close>

text \<open>
  Whatever the operating system: when the Symlinks option is false and a link is not
  skipped as dangling, the entry goes to the copy function with \<open>followSymlinks = false\<close>;
  when the option is true, what \<open>os.Symlink\<close> returns is not looked at; a link whose
  target \<open>os.Stat\<close> reports missing is passed over under IgnoreDanglingSymlinks.
\<close>

lemma CopyTree_entry_link_not_followed:
  assumes "\<not> stringInSlice (fi_Name entry) ign"
    and "os_Lstat os w (filepath_Join os src (fi_Name entry)) = Inr fi" and "IsSymlink fi"
    and "os_Readlink os w (filepath_Join os src (fi_Name entry)) = Inr linkTo"
    and "\<not> Symlinks options" and "\<not> IgnoreDanglingSymlinks options"
    and "CopyFunction options = Some f"
    and "f (filepath_Join os src (fi_Name entry)) (filepath_Join os dst (fi_Name entry)) False w
         = Some (Return (p, None), w1)"
  shows "copyEntries recurse os options src dst ign (entry # entries) w
         = copyEntries recurse os options src dst ign entries w1"
  using assms by (simp add: Let_def call_CopyFunc_def)

lemma copyEntries_Symlink_result_unused:
  assumes "\<not> stringInSlice (fi_Name entry) ign"
    and "os_Lstat os w (filepath_Join os src (fi_Name entry)) = Inr fi" and "IsSymlink fi"
    and "os_Readlink os w (filepath_Join os src (fi_Name entry)) = Inr linkTo"
    and "Symlinks options"
  shows "copyEntries recurse os options src dst ign (entry # entries) w
         = copyEntries recurse os options src dst ign entries
             (snd (os_Symlink os linkTo (filepath_Join os dst (fi_Name entry)) w))"
  using assms by (simp add: Let_def split: prod.splits)

lemma copyEntries_dangling_skipped:
  assumes "\<not> stringInSlice (fi_Name entry) ign"
    and "os_Lstat os w (filepath_Join os src (fi_Name entry)) = Inr fi" and "IsSymlink fi"
    and "os_Readlink os w (filepath_Join os src (fi_Name entry)) = Inr linkTo"
    and "\<not> Symlinks options" and "IgnoreDanglingSymlinks options"
    and "os_Stat os w linkTo = Inl err" and "IsNotExist (Some err)"
  shows "copyEntries recurse os options src dst ign (entry # entries) w
         = copyEntries recurse os options src dst ign entries w"
  using assms by (simp add: Let_def err_of_def)

text \<open>
  Claim C1: with the Symlinks option false, an entry of the source tree that is a
  symbolic link to an existing file is copied as the content of that file, not as a
  link. The code does otherwise. On \<open>fs_link\<close> the link \<open>/s/l\<close> leads to a file that
  holds \<open>hi\<close>; \<open>CopyTree("/s", "/d", nil)\<close> returns nil, and \<open>/d/l\<close> is then a
  symbolic link whose target is the string \<open>/s/l\<close>: CopyTree hands the entry to the
  copy function with \<open>followSymlinks = false\<close>, and CopyFile answers a link with
  \<open>os.Symlink(src, dst)\<close>.
\<close>

theorem CopyTree_linked_file_copied_as_link:
  "ioutil_ReadFile memos fs_link ''/s/l'' = Some (Inr ''hi'')
   \<and> CopyTree 2 memos ''/s'' ''/d'' None fs_link = Some (Return None, fs_link_copied)
   \<and> map_option IsSymlink (info_of (os_Lstat memos fs_link_copied ''/d/l'')) = Some True
   \<and> os_Readlink memos fs_link_copied ''/d/l'' = Inr ''/s/l''"
  by code_simp

text \<open>
  Claim C2: a source tree with a symbolic link whose target does not exist makes
  CopyTree fail when Symlinks and IgnoreDanglingSymlinks are both false. The code does
  otherwise. On \<open>fs_dangling\<close> the target \<open>/gone\<close> of \<open>/s/l\<close> does not exist, and
  CopyTree with both options false and the default copy function returns nil, having
  made \<open>/d/l\<close> a link to \<open>/s/l\<close>: the copy function is called with
  \<open>followSymlinks = false\<close> and never opens the missing target.
\<close>

theorem CopyTree_dangling_link_returns_nil:
  "os_Stat memos fs_dangling ''/gone'' = Inl (PathError ''stat'' ''/gone'' ENOENT)
   \<and> CopyTree 2 memos ''/s'' ''/d''
        (Some \<lparr>Symlinks = False, IgnoreDanglingSymlinks = False,
               CopyFunction = Some (Copy memos), Ignore = None\<rparr>) fs_dangling
      = Some (Return None, fs_dangling_copied)"
  by code_simp

text \<open>
  The other child operations of the loop do return their error at once, with the
  remaining entries untouched: the copy function and the recursive call are shown.
\<close>

lemma copyEntries_copy_error_returned:
  assumes "\<not> stringInSlice (fi_Name entry) ign"
    and "os_Lstat os w (filepath_Join os src (fi_Name entry)) = Inr fi"
    and "\<not> IsSymlink fi" and "\<not> IsDir fi"
    and "call_CopyFunc (CopyFunction options) (filepath_Join os src (fi_Name entry))
           (filepath_Join os dst (fi_Name entry)) False w = Some (Return (p, Some err), w1)"
  shows "copyEntries recurse os options src dst ign (entry # entries) w
         = Some (Return (Some err), w1)"
  using assms by (simp add: Let_def)

lemma copyEntries_subtree_error_returned:
  assumes "\<not> stringInSlice (fi_Name entry) ign"
    and "os_Lstat os w (filepath_Join os src (fi_Name entry)) = Inr fi"
    and "\<not> IsSymlink fi" and "IsDir fi"
    and "recurse (filepath_Join os src (fi_Name entry)) (filepath_Join os dst (fi_Name entry)) w
         = Some (Return (Some err), w1)"
  shows "copyEntries recurse os options src dst ign (entry # entries) w
         = Some (Return (Some err), w1)"
  using assms by (simp add: Let_def)

text \<open>
  Claim C4: every error of a child operation in CopyTree's loop, the recreation of a
  symbolic link under the Symlinks option included, is returned at once. The code drops
  the result of \<open>os.Symlink\<close>. On \<open>fs_readonly\<close> the source directory has mode \<open>0555\<close>,
  so the destination is made with mode \<open>0555\<close> and \<open>os.Symlink("/t", "/d/l")\<close> fails
  there with \<open>EACCES\<close>; CopyTree returns nil and \<open>/d\<close> has no entry.
\<close>

theorem CopyTree_symlink_error_dropped:
  "CopyTree 2 memos ''/s'' ''/d''
     (Some \<lparr>Symlinks = True, IgnoreDanglingSymlinks = False,
            CopyFunction = Some (Copy memos), Ignore = None\<rparr>) fs_readonly
     = Some (Return None, fs_readonly_copied)
   \<and> os_Symlink memos ''/t'' ''/d/l'' fs_readonly_copied
     = (Some (LinkError ''symlink'' ''/t'' ''/d/l'' EACCES), fs_readonly_copied)
   \<and> os_Lstat memos fs_readonly_copied ''/d/l'' = Inl (PathError ''lstat'' ''/d/l'' ENOENT)"
  by code_simp

section \<open>CopyTree and an existing destination\<close>

text \<open>
  Whatever the operating system: when \<open>os.Open(dst)\<close> does not return, CopyTree on a
  directory does not return, with any fuel.
\<close>

lemma CopyTree_blocked_open:
  assumes "os_Stat os w src = Inr srcFileInfo" and "IsDir srcFileInfo"
    and "os_Open os w dst = None"
  shows "CopyTree fuel os src dst options w = None"
  using assms by (cases fuel) simp_all

text \<open>
  Claim C6, as stated: for every existing path \<open>dst\<close>, whatever its type, CopyTree
  from a directory fails with the already-exists error. It does not for a symbolic
  link whose target is missing. On \<open>fs_odd_dst\<close>, \<open>/dl\<close> exists and is such a link;
  \<open>os.Open("/dl")\<close> reports not-exist, CopyTree goes on to \<open>os.MkdirAll("/dl")\<close>, and
  what it returns is that call's error, \<open>mkdir /dl: file exists\<close>, a \<open>*os.PathError\<close>.
\<close>

theorem CopyTree_dangling_dst_mkdir_error:
  "map_option IsSymlink (info_of (os_Lstat memos fs_odd_dst ''/dl'')) = Some True
   \<and> os_Open memos fs_odd_dst ''/dl'' = Some (Inl (PathError ''open'' ''/dl'' ENOENT))
   \<and> CopyTree (Suc 0) memos ''/s'' ''/dl'' None fs_odd_dst
       = Some (Return (Some (PathError ''mkdir'' ''/dl'' EEXIST)), fs_odd_dst)
   \<and> CopyTree (Suc 0) memos ''/s'' ''/dl'' None fs_odd_dst
       \<noteq> Some (Return (Some (AlreadyExistsError ''/dl'')), fs_odd_dst)"
  by code_simp

text \<open>
  Claim C6, amended: when the source is a directory and \<open>os.Open(dst)\<close> returns
  anything but a not-exist error (it opens \<open>dst\<close>, or fails in some other way, as for
  a file that may not be read), CopyTree fails with the already-exists error for \<open>dst\<close>
  and the file system is the one it was called on. This holds for any options and any
  fuel but none. On the file system above these are the paths that lead to an existing
  file or directory (\<open>memfs_CopyTree_existing_dst\<close>).
\<close>

theorem CopyTree_existing_dst_fails:
  assumes "os_Stat os w src = Inr srcFileInfo" and "IsDir srcFileInfo"
    and "os_Open os w dst = Some opened"
    and "\<not> IsNotExist (err_of opened)"
  shows "CopyTree (Suc fuel) os src dst options w
         = Some (Return (Some (AlreadyExistsError dst)), w)"
  using assms by simp

theorem CopyTree_existing_dst_fails_witness:
  "os_Stat memos fs_odd_dst ''/s''
     = Inr \<lparr>fi_Name = ''s'', fi_Size = 0, fi_Mode = 2147484141, fi_Sys = 2\<rparr>
   \<and> IsDir \<lparr>fi_Name = ''s'', fi_Size = 0, fi_Mode = 2147484141, fi_Sys = 2\<rparr>
   \<and> os_Open memos fs_odd_dst ''/t'' = Some (Inr [''t''])
   \<and> \<not> IsNotExist (err_of (Inr [''t''] :: error + string list))
   \<and> CopyTree (Suc 0) memos ''/s'' ''/t'' None fs_odd_dst
     = Some (Return (Some (AlreadyExistsError ''/t'')), fs_odd_dst)
   \<and> os_Open memos fs_odd_dst ''/x'' = Some (Inl (PathError ''open'' ''/x'' EACCES))
   \<and> \<not> IsNotExist (err_of (Inl (PathError ''open'' ''/x'' EACCES) :: error + string list))
   \<and> CopyTree (Suc 0) memos ''/s'' ''/x'' None fs_odd_dst
     = Some (Return (Some (AlreadyExistsError ''/x'')), fs_odd_dst)"
proof -
  have src: "os_Stat memos fs_odd_dst ''/s''
     = Inr \<lparr>fi_Name = ''s'', fi_Size = 0, fi_Mode = 2147484141, fi_Sys = 2\<rparr>"
    by code_simp
  have dir: "IsDir \<lparr>fi_Name = ''s'', fi_Size = 0, fi_Mode = 2147484141, fi_Sys = 2\<rparr>"
    by code_simp
  have opn: "os_Open memos fs_odd_dst ''/t'' = Some (Inr [''t''])"
    by code_simp
  have there: "\<not> IsNotExist (err_of (Inr [''t''] :: error + string list))"
    by (simp add: err_of_def)
  have opx: "os_Open memos fs_odd_dst ''/x'' = Some (Inl (PathError ''open'' ''/x'' EACCES))"
    by code_simp
  have refused:
    "\<not> IsNotExist (err_of (Inl (PathError ''open'' ''/x'' EACCES) :: error + string list))"
    by (simp add: err_of_def)
  show ?thesis
    by (intro conjI src dir opn there opx refused
        CopyTree_existing_dst_fails [OF src dir opn there]
        CopyTree_existing_dst_fails [OF src dir opx refused])
qed

text \<open>
  On \<open>fs_odd_dst\<close> the named pipe \<open>/p\<close> is found by \<open>os.Stat\<close>, \<open>os.Open\<close> on it does
  not return, and neither does CopyTree.
\<close>

lemma CopyTree_pipe_dst_blocks:
  "map_option specialfile (info_of (os_Stat memos fs_odd_dst ''/p'')) = Some True
   \<and> os_Open memos fs_odd_dst ''/p'' = None
   \<and> CopyTree (Suc 0) memos ''/s'' ''/p'' None fs_odd_dst = None"
  by code_simp

section \<open>Move\<close>

text \<open>
  Whatever the operating system: in the directory branch, Move returns \<open>real_dst\<close> and a
  nil error for any error \<open>r\<close> of CopyTree and any result of \<open>os.RemoveAll\<close>; and
  destinsrc compares \<open>dst\<close> as \<open>filepath.Abs\<close> gave it, with no separator added.
\<close>

lemma Move_rename_directory_results_unused:
  assumes "os_Rename os src real_dst w = (Some e, w1)"
    and "os_Lstat os w1 src = Inr srcStat" and "\<not> IsSymlink srcStat"
    and "fst (isDirectory os w1 src)"
    and "destinsrc os w1 src dst = Inr False"
    and "CopyTree fuel os src real_dst
           (Some \<lparr>Symlinks = True, IgnoreDanglingSymlinks = False,
                  CopyFunction = Some (Copy os), Ignore = None\<rparr>) w1 = Some (Return r, w2)"
  shows "Move_rename fuel os src dst real_dst options w
         = Some (Return (real_dst, None), snd (os_RemoveAll os src w2))"
  using assms by (simp add: Move_rename_def split: prod.splits)

text \<open>The branches for a file and for a symbolic link do return the error of their copy.\<close>

lemma Move_rename_file_error_returned:
  assumes "os_Rename os src real_dst w = (Some e, w1)"
    and "os_Lstat os w1 src = Inr srcStat" and "\<not> IsSymlink srcStat"
    and "\<not> fst (isDirectory os w1 src)"
    and "call_CopyFunc (mv_CopyFunction options) src real_dst True w1
         = Some (Return (p, Some err), w2)"
  shows "Move_rename fuel os src dst real_dst options w = Some (Return ([], Some err), w2)"
  using assms by (simp add: Move_rename_def)

lemma Move_rename_link_error_returned:
  assumes "os_Rename os src real_dst w = (Some e, w1)"
    and "os_Lstat os w1 src = Inr srcStat" and "IsSymlink srcStat"
    and "os_Readlink os w1 src = Inr linkto"
    and "os_Symlink os linkto real_dst w1 = (Some err, w2)"
  shows "Move_rename fuel os src dst real_dst options w = Some (Return ([], Some err), w2)"
  using assms by (simp add: Move_rename_def)

lemma HasSuffix_append_self: "HasSuffix (a @ sep) sep"
  by (simp add: HasSuffix_def)

lemma destinsrc_dst_unterminated:
  assumes "filepath_Abs os w src = Inr a" and "filepath_Abs os w dst = Inr b"
  shows "destinsrc os w src dst
         = Inr (HasPrefix b (if HasSuffix a [os_PathSeparator os] then a
                             else a @ [os_PathSeparator os]))"
  using assms by (simp add: destinsrc_def Let_def HasSuffix_append_self)

text \<open>
  Claim C3: in Move's fallback for a directory, an error of the tree copy or of the
  removal of the source is Move's error. The code drops both results. On \<open>fs_move\<close>,
  \<open>Move("/s", "/f", nil)\<close> cannot rename the directory \<open>/s\<close> onto the file \<open>/f\<close>;
  the tree copy fails because \<open>/f\<close> exists and copies nothing; \<open>/s\<close> is removed all
  the same, and Move returns \<open>/f\<close> with a nil error.
\<close>

theorem Move_directory_copy_error_dropped:
  "CopyTree 2 memos ''/s'' ''/f''
     (Some \<lparr>Symlinks = True, IgnoreDanglingSymlinks = False,
            CopyFunction = Some (Copy memos), Ignore = None\<rparr>) fs_move
     = Some (Return (Some (AlreadyExistsError ''/f'')), fs_move)
   \<and> destinsrc memos fs_move ''/s'' ''/f'' = Inr False
   \<and> Move 2 memos ''/s'' ''/f'' None fs_move = Some (Return (''/f'', None), fs_moved)"
  by code_simp

text \<open>
  Claim C7: when the destination is a directory that is not the source, and something
  exists at \<open>dst/basename(src)\<close>, Move fails with the already-exists error and the
  file system is the one it was called on.
\<close>

theorem Move_existing_real_dst_fails:
  assumes "os_Stat os w dst = Inr dstInfo" and "IsDir dstInfo"
    and "\<not> samefile os w src dst"
    and "os_Stat os w (path_Join os dst (path_Base os src)) = Inr realInfo"
  shows "Move fuel os src dst options w
         = Some (Return ([], Some (AlreadyExistsError dst)), w)"
  using assms by (simp add: Move_def isDirectory_def err_of_def)

theorem Move_existing_real_dst_fails_witness:
  "os_Stat memos fs_move ''/d''
     = Inr \<lparr>fi_Name = ''d'', fi_Size = 0, fi_Mode = 2147484141, fi_Sys = 5\<rparr>
   \<and> IsDir \<lparr>fi_Name = ''d'', fi_Size = 0, fi_Mode = 2147484141, fi_Sys = 5\<rparr>
   \<and> \<not> samefile memos fs_move ''/f'' ''/d''
   \<and> path_Join memos ''/d'' (path_Base memos ''/f'') = ''/d/f''
   \<and> os_Stat memos fs_move ''/d/f''
     = Inr \<lparr>fi_Name = ''f'', fi_Size = 4, fi_Mode = 420, fi_Sys = 6\<rparr>
   \<and> Move 0 memos ''/f'' ''/d'' None fs_move
     = Some (Return ([], Some (AlreadyExistsError ''/d'')), fs_move)"
proof -
  have dst: "os_Stat memos fs_move ''/d''
     = Inr \<lparr>fi_Name = ''d'', fi_Size = 0, fi_Mode = 2147484141, fi_Sys = 5\<rparr>"
    by code_simp
  have dir: "IsDir \<lparr>fi_Name = ''d'', fi_Size = 0, fi_Mode = 2147484141, fi_Sys = 5\<rparr>"
    by code_simp
  have diff: "\<not> samefile memos fs_move ''/f'' ''/d''"
    by code_simp
  have real: "path_Join memos ''/d'' (path_Base memos ''/f'') = ''/d/f''"
    by code_simp
  have there: "os_Stat memos fs_move ''/d/f''
     = Inr \<lparr>fi_Name = ''f'', fi_Size = 4, fi_Mode = 420, fi_Sys = 6\<rparr>"
    by code_simp
  have there': "os_Stat memos fs_move (path_Join memos ''/d'' (path_Base memos ''/f''))
     = Inr \<lparr>fi_Name = ''f'', fi_Size = 4, fi_Mode = 420, fi_Sys = 6\<rparr>"
    by (simp only: real there)
  show ?thesis
    by (intro conjI dst dir diff real there
        Move_existing_real_dst_fails [OF dst dir diff there'])
qed

text \<open>
  Claim C5: destinsrc makes both paths absolute, ends each with a separator, and
  tests the prefix; so a path is inside itself. The code tests \<open>src\<close> a second time
  where \<open>dst\<close> is meant, \<open>dst\<close> never gets its separator, and a directory is not
  found inside itself.
\<close>

theorem destinsrc_same_path_false:
  "filepath_Abs memos fs_move ''/s'' = Inr ''/s''
   \<and> destinsrc memos fs_move ''/s'' ''/s'' = Inr False"
  by code_simp

section \<open>CopyFile and CopyMode\<close>

text \<open>
  Claim C8: on CopyFile's content-copy path, once the bytes are streamed, the call
  returns an error exactly when the number of bytes written differs from the size of
  the source as it was stat'd before it was opened; and when the call succeeds, the
  destination holds the whole content of the source. The first four hypotheses say
  that the checks before the copy pass; the fifth names the file copied and its stat
  (the link's target when a link is followed); the last three say what the streaming
  does: the size stat'd is the length of the source's content, and the destination
  then holds the bytes written, the first \<open>written\<close> of that content.
\<close>

theorem CopyFile_size_check:
  assumes "\<not> samefile os w src dst"
    and "os_Lstat os w src = Inr srcStat0" and "\<not> specialfile srcStat0"
    and "case os_Stat os w dst of
           Inl err \<Rightarrow> IsNotExist (Some err)
         | Inr dstStat \<Rightarrow> \<not> specialfile dstStat"
    and "if IsSymlink srcStat0
         then followSymlinks \<and> os_Readlink os w src = Inr src2
              \<and> os_Stat os w src2 = Inr srcStat
         else src2 = src \<and> srcStat = srcStat0"
    and "os_Open os w src2 = Some (Inr fsrc)"
    and "os_Create os dst w = (Inr fdst, w1)"
    and "io_Copy os fdst fsrc w1 = ((written, None), w2)"
    and "ioutil_ReadFile os w src2 = Some (Inr data)"
    and "fi_Size srcStat = int (length data)"
    and "ioutil_ReadFile os w2 dst = Some (Inr (take (nat written) data))"
  shows "CopyFile os src dst followSymlinks w
           = Some (if written \<noteq> fi_Size srcStat
                   then Some (CopiedError src2 written (fi_Size srcStat)) else None, w2)
         \<and> (\<exists>err. CopyFile os src dst followSymlinks w = Some (Some err, w2))
             = (written \<noteq> fi_Size srcStat)
         \<and> (CopyFile os src dst followSymlinks w = Some (None, w2)
            \<longrightarrow> ioutil_ReadFile os w2 dst = Some (Inr data))"
proof -
  have run: "CopyFile os src dst followSymlinks w
           = Some (if written \<noteq> fi_Size srcStat
                   then Some (CopiedError src2 written (fi_Size srcStat)) else None, w2)"
    using assms(1-8) by (auto simp add: CopyFile_def split: sum.splits if_splits)
  have full: "ioutil_ReadFile os w2 dst = Some (Inr data)" if "written = fi_Size srcStat"
    using that assms(10,11) by simp
  show ?thesis
    using run full by auto
qed

theorem CopyFile_size_check_witness:
  "\<not> samefile memos fs_link ''/s/l'' ''/u''
   \<and> os_Lstat memos fs_link ''/s/l''
     = Inr \<lparr>fi_Name = ''l'', fi_Size = 2, fi_Mode = 134218239, fi_Sys = 3\<rparr>
   \<and> os_Stat memos fs_link ''/u'' = Inl (PathError ''stat'' ''/u'' ENOENT)
   \<and> os_Readlink memos fs_link ''/s/l'' = Inr ''/t''
   \<and> os_Stat memos fs_link ''/t''
     = Inr \<lparr>fi_Name = ''t'', fi_Size = 2, fi_Mode = 420, fi_Sys = 4\<rparr>
   \<and> os_Open memos fs_link ''/t'' = Some (Inr [''t''])
   \<and> os_Create memos ''/u'' fs_link = (Inr [''u''], fs_link_created)
   \<and> io_Copy memos [''u''] [''t''] fs_link_created = ((2, None), fs_link_written)
   \<and> ioutil_ReadFile memos fs_link ''/t'' = Some (Inr ''hi'')
   \<and> ioutil_ReadFile memos fs_link_written ''/u'' = Some (Inr ''hi'')
   \<and> CopyFile memos ''/s/l'' ''/u'' True fs_link = Some (None, fs_link_written)"
proof -
  let ?l = "\<lparr>fi_Name = ''l'', fi_Size = 2, fi_Mode = 134218239, fi_Sys = 3\<rparr>"
  let ?t = "\<lparr>fi_Name = ''t'', fi_Size = 2, fi_Mode = 420, fi_Sys = 4\<rparr>"
  have diff: "\<not> samefile memos fs_link ''/s/l'' ''/u''"
    by code_simp
  have lst: "os_Lstat memos fs_link ''/s/l'' = Inr ?l"
    by code_simp
  have nsp: "\<not> specialfile ?l"
    by code_simp
  have dst: "os_Stat memos fs_link ''/u'' = Inl (PathError ''stat'' ''/u'' ENOENT)"
    by code_simp
  have dst': "case os_Stat memos fs_link ''/u'' of
           Inl err \<Rightarrow> IsNotExist (Some err)
         | Inr dstStat \<Rightarrow> \<not> specialfile dstStat"
    by (simp add: dst)
  have lnk: "IsSymlink ?l"
    by code_simp
  have rdl: "os_Readlink memos fs_link ''/s/l'' = Inr ''/t''"
    by code_simp
  have st: "os_Stat memos fs_link ''/t'' = Inr ?t"
    by code_simp
  have which: "if IsSymlink ?l
         then True \<and> os_Readlink memos fs_link ''/s/l'' = Inr ''/t''
              \<and> os_Stat memos fs_link ''/t'' = Inr ?t
         else ''/t'' = ''/s/l'' \<and> ?t = ?l"
    by (simp only: lnk rdl st if_True simp_thms)
  have opn: "os_Open memos fs_link ''/t'' = Some (Inr [''t''])"
    by code_simp
  have cre: "os_Create memos ''/u'' fs_link = (Inr [''u''], fs_link_created)"
    by code_simp
  have cpy: "io_Copy memos [''u''] [''t''] fs_link_created = ((2, None), fs_link_written)"
    by code_simp
  have dat: "ioutil_ReadFile memos fs_link ''/t'' = Some (Inr ''hi'')"
    by code_simp
  have siz: "fi_Size ?t = int (length ''hi'')"
    by simp
  have out: "ioutil_ReadFile memos fs_link_written ''/u'' = Some (Inr ''hi'')"
    by code_simp
  have out': "ioutil_ReadFile memos fs_link_written ''/u'' = Some (Inr (take (nat 2) ''hi''))"
    by (simp add: out)
  have "CopyFile memos ''/s/l'' ''/u'' True fs_link = Some (None, fs_link_written)"
    using CopyFile_size_check [OF diff lst nsp dst' which opn cre cpy dat siz out']
    by simp
  then show ?thesis
    by (intro conjI diff lst dst rdl st opn cre cpy dat out)
qed

text \<open>
  Claim C9: for a source that is a symbolic link, \<open>CopyFile(src, dst, false)\<close> makes a
  symbolic link at \<open>dst\<close> whose target is the string \<open>src\<close> itself, copies no content,
  and returns. Once the checks before it pass (the two paths are not one file, neither
  is a named pipe, \<open>os.Stat(dst)\<close> fails at most with not-exist), the whole call is the
  one call \<open>os.Symlink(src, dst)\<close>: its result is returned and its file system is the
  result's.
\<close>

theorem CopyFile_link_not_followed:
  assumes "os_Lstat os w src = Inr srcStat" and "IsSymlink srcStat"
    and "\<not> samefile os w src dst" and "\<not> specialfile srcStat"
    and "case os_Stat os w dst of
           Inl err \<Rightarrow> IsNotExist (Some err)
         | Inr dstStat \<Rightarrow> \<not> specialfile dstStat"
  shows "CopyFile os src dst False w = Some (os_Symlink os src dst w)"
  using assms by (simp add: CopyFile_def split: sum.splits)

theorem CopyFile_link_not_followed_witness:
  "os_Lstat memos fs_link ''/s/l''
     = Inr \<lparr>fi_Name = ''l'', fi_Size = 2, fi_Mode = 134218239, fi_Sys = 3\<rparr>
   \<and> IsSymlink \<lparr>fi_Name = ''l'', fi_Size = 2, fi_Mode = 134218239, fi_Sys = 3\<rparr>
   \<and> \<not> samefile memos fs_link ''/s/l'' ''/u''
   \<and> \<not> specialfile \<lparr>fi_Name = ''l'', fi_Size = 2, fi_Mode = 134218239, fi_Sys = 3\<rparr>
   \<and> os_Stat memos fs_link ''/u'' = Inl (PathError ''stat'' ''/u'' ENOENT)
   \<and> CopyFile memos ''/s/l'' ''/u'' False fs_link
     = Some (os_Symlink memos ''/s/l'' ''/u'' fs_link)
   \<and> os_Symlink memos ''/s/l'' ''/u'' fs_link = (None, fs_link_linked)
   \<and> os_Readlink memos fs_link_linked ''/u'' = Inr ''/s/l''
   \<and> os_Readlink memos fs_link ''/s/l'' = Inr ''/t''"
proof -
  have lst: "os_Lstat memos fs_link ''/s/l''
     = Inr \<lparr>fi_Name = ''l'', fi_Size = 2, fi_Mode = 134218239, fi_Sys = 3\<rparr>"
    by code_simp
  have lnk: "IsSymlink \<lparr>fi_Name = ''l'', fi_Size = 2, fi_Mode = 134218239, fi_Sys = 3\<rparr>"
    by code_simp
  have diff: "\<not> samefile memos fs_link ''/s/l'' ''/u''"
    by code_simp
  have nsp: "\<not> specialfile \<lparr>fi_Name = ''l'', fi_Size = 2, fi_Mode = 134218239, fi_Sys = 3\<rparr>"
    by code_simp
  have dst: "os_Stat memos fs_link ''/u'' = Inl (PathError ''stat'' ''/u'' ENOENT)"
    by code_simp
  have dst': "case os_Stat memos fs_link ''/u'' of
           Inl err \<Rightarrow> IsNotExist (Some err)
         | Inr dstStat \<Rightarrow> \<not> specialfile dstStat"
    by (simp add: dst)
  have sym: "os_Symlink memos ''/s/l'' ''/u'' fs_link = (None, fs_link_linked)"
    by code_simp
  have rd: "os_Readlink memos fs_link_linked ''/u'' = Inr ''/s/l''"
    by code_simp
  have rd0: "os_Readlink memos fs_link ''/s/l'' = Inr ''/t''"
    by code_simp
  show ?thesis
    by (intro conjI lst lnk diff nsp dst sym rd rd0
        CopyFile_link_not_followed [OF lst lnk diff nsp dst'])
qed

text \<open>
  Claim C10: CopyMode panics, instead of returning an error, when \<open>src\<close> is a symbolic
  link whose target does not exist and \<open>dst\<close> exists and is not a symbolic link: the
  second \<open>os.Stat(src)\<close> fails, its error is discarded, and \<open>Mode()\<close> is called on the
  nil FileInfo. This is so for either value of \<open>followSymlinks\<close>, and the file system
  is untouched.
\<close>

theorem CopyMode_dangling_src_panics:
  assumes "os_Lstat os w src = Inr srcStat" and "IsSymlink srcStat"
    and "os_Stat os w src = Inl err"
    and "os_Lstat os w dst = Inr dstStat" and "\<not> IsSymlink dstStat"
  shows "CopyMode os src dst followSymlinks w = (Panic, w)"
  using assms by (simp add: CopyMode_def info_of_def)

theorem CopyMode_dangling_src_panics_witness:
  "os_Lstat memos fs_dangling ''/s/l''
     = Inr \<lparr>fi_Name = ''l'', fi_Size = 5, fi_Mode = 134218239, fi_Sys = 3\<rparr>
   \<and> IsSymlink \<lparr>fi_Name = ''l'', fi_Size = 5, fi_Mode = 134218239, fi_Sys = 3\<rparr>
   \<and> os_Stat memos fs_dangling ''/s/l'' = Inl (PathError ''stat'' ''/s/l'' ENOENT)
   \<and> os_Lstat memos fs_dangling ''/t''
     = Inr \<lparr>fi_Name = ''t'', fi_Size = 2, fi_Mode = 420, fi_Sys = 4\<rparr>
   \<and> \<not> IsSymlink \<lparr>fi_Name = ''t'', fi_Size = 2, fi_Mode = 420, fi_Sys = 4\<rparr>
   \<and> CopyMode memos ''/s/l'' ''/t'' False fs_dangling = (Panic, fs_dangling)"
proof -
  have lst: "os_Lstat memos fs_dangling ''/s/l''
     = Inr \<lparr>fi_Name = ''l'', fi_Size = 5, fi_Mode = 134218239, fi_Sys = 3\<rparr>"
    by code_simp
  have lnk: "IsSymlink \<lparr>fi_Name = ''l'', fi_Size = 5, fi_Mode = 134218239, fi_Sys = 3\<rparr>"
    by code_simp
  have gone: "os_Stat memos fs_dangling ''/s/l'' = Inl (PathError ''stat'' ''/s/l'' ENOENT)"
    by code_simp
  have dst: "os_Lstat memos fs_dangling ''/t''
     = Inr \<lparr>fi_Name = ''t'', fi_Size = 2, fi_Mode = 420, fi_Sys = 4\<rparr>"
    by code_simp
  have reg: "\<not> IsSymlink \<lparr>fi_Name = ''t'', fi_Size = 2, fi_Mode = 420, fi_Sys = 4\<rparr>"
    by code_simp
  show ?thesis
    by (intro conjI lst lnk gone dst reg
        CopyMode_dangling_src_panics [OF lst lnk gone dst reg])
qed

end
